theory Spec2Isabelle
  imports Complex_Main "HOL-Library.AList"
begin

section \<open>Python values shared by the components\<close>

text \<open>
  A Python \<^verbatim>\<open>dict\<close> literal keeps the position of the first occurrence of a key
  and the value of its last occurrence; \<open>py_dict\<close> builds the dictionary from the
  key/value pairs in the order they are written. \<open>dict_get\<close> is
  \<^verbatim>\<open>d.get(k, default)\<close>.
\<close>

definition py_dict :: "('k \<times> 'v) list \<Rightarrow> ('k \<times> 'v) list" where
  "py_dict items = foldl (\<lambda>d (k, v). AList.update k v d) [] items"

definition dict_get :: "('k \<times> 'v) list \<Rightarrow> 'k \<Rightarrow> 'v \<Rightarrow> 'v" where
  "dict_get d k dflt = (case map_of d k of Some v \<Rightarrow> v | None \<Rightarrow> dflt)"

text \<open>
  The exceptions met below: a \<^verbatim>\<open>TypeError\<close> of a binary operator (the operator
  and the type names of its operands), a \<^verbatim>\<open>KeyError\<close> (the key), the
  \<^verbatim>\<open>ValueError\<close> of printing an integer that has too many digits, the
  \<^verbatim>\<open>OverflowError\<close> of converting an integer that is too large to a float or
  to an index, and the \<^verbatim>\<open>MemoryError\<close> of a string too long to build.
\<close>

datatype py_error =
    TypeError string string string
  | KeyError string
  | ValueError
  | OverflowError
  | MemoryError

text \<open>
  A string is the text of a Python \<^verbatim>\<open>str\<close>, one character for each ASCII
  character and the bytes of its UTF-8 encoding for any other. \<^verbatim>\<open>str.upper()\<close>
  and \<^verbatim>\<open>str.lower()\<close> on ASCII text exchange the letters \<^verbatim>\<open>a-z\<close> (codes 97
  to 122) and \<^verbatim>\<open>A-Z\<close> (codes 65 to 90) and keep every other character. On a text
  with a character outside ASCII they follow the case mapping of Unicode, which is
  taken as given: the first argument of \<open>upper\<close> and of \<open>lower\<close> is Python's
  method on such texts.
\<close>

definition is_ascii :: "string \<Rightarrow> bool" where
  "is_ascii s = list_all (\<lambda>c. (of_char c :: nat) < 128) s"

definition upper_char :: "char \<Rightarrow> char" where
  "upper_char c =
     (let n = (of_char c :: nat)
      in if 97 \<le> n \<and> n \<le> 122 then char_of (n - 32) else c)"

definition upper :: "(string \<Rightarrow> string) \<Rightarrow> string \<Rightarrow> string" where
  "upper unicode_upper s = (if is_ascii s then map upper_char s else unicode_upper s)"

definition lower_char :: "char \<Rightarrow> char" where
  "lower_char c =
     (let n = (of_char c :: nat)
      in if 65 \<le> n \<and> n \<le> 90 then char_of (n + 32) else c)"

definition lower :: "(string \<Rightarrow> string) \<Rightarrow> string \<Rightarrow> string" where
  "lower unicode_lower s = (if is_ascii s then map lower_char s else unicode_lower s)"

text \<open>
  \<^verbatim>\<open>str(i)\<close> of a Python integer, which is also how an f-string prints it: its
  decimal digits, with a minus sign when negative. CPython (3.11 and later, with the
  default setting) refuses with \<^verbatim>\<open>ValueError\<close> when the integer has more than
  4300 digits.
\<close>

fun str_nat :: "nat \<Rightarrow> string" where
  "str_nat n =
     (if n < 10 then [char_of (48 + n)]
      else str_nat (n div 10) @ [char_of (48 + n mod 10)])"

definition str_int :: "int \<Rightarrow> string" where
  "str_int i = (if i < 0 then CHR ''-'' # str_nat (nat (- i)) else str_nat (nat i))"

definition int_max_str_digits :: nat where
  "int_max_str_digits = 4300"

definition py_str_int :: "int \<Rightarrow> py_error + string" where
  "py_str_int i =
     (if \<bar>i\<bar> < 10 ^ int_max_str_digits then Inr (str_int i) else Inl ValueError)"

section \<open>Asset directory\<close>

text \<open>
  \<^verbatim>\<open>src/src/hyperliquid/types.py\<close>. \<open>ASSET_IDS_literal\<close> is the dictionary
  display of \<^verbatim>\<open>ASSET_IDS\<close> as it is written, entry by entry: the keys
  \<^verbatim>\<open>"TIA"\<close> and \<^verbatim>\<open>"ENA"\<close> occur more than once. \<open>ASSET_IDS\<close> is the
  dictionary Python builds from it.
\<close>

definition ASSET_IDS_literal :: "(string \<times> int) list" where
  "ASSET_IDS_literal =
     [(''BTC'', 0), (''ETH'', 1), (''SOL'', 2), (''ARB'', 3), (''APE'', 4),
      (''AVAX'', 5), (''BNB'', 6), (''DOGE'', 7), (''FTM'', 8), (''GMX'', 9),
      (''LINK'', 10), (''LTC'', 11), (''NEAR'', 12), (''OP'', 13), (''ORDI'', 14),
      (''PEPE'', 15), (''SHIB'', 16), (''SUI'', 17), (''SUSHI'', 18), (''TIA'', 19),
      (''TRX'', 20), (''UNI'', 21), (''WLD'', 22), (''XRP'', 23), (''ZKS'', 24),
      (''SEI'', 25), (''INJ'', 26), (''STX'', 27), (''FIL'', 28), (''ETC'', 29),
      (''CFX'', 30), (''ICP'', 31), (''APT'', 32), (''IMX'', 33), (''GALA'', 34),
      (''XLM'', 35), (''DOT'', 36), (''ADA'', 37), (''MATIC'', 38), (''ATOM'', 39),
      (''LDO'', 40), (''ONDO'', 41), (''ALT'', 42), (''JTO'', 43), (''ZRO'', 44),
      (''ENA'', 45), (''WIF'', 46), (''TIA'', 47), (''MERL'', 48), (''PYTH'', 49),
      (''REZ'', 50), (''STRK'', 51), (''TON'', 52), (''AXL'', 53), (''MYRO'', 54),
      (''MEW'', 55), (''AUCTION'', 56), (''RARI'', 57), (''BOME'', 58), (''PNUT'', 59),
      (''MOTHER'', 60), (''GRIFFAIN'', 61), (''AI16Z'', 62), (''FARTCOIN'', 63), (''GOAT'', 64),
      (''HYPER'', 65), (''TURBO'', 66), (''ZEREBRO'', 67), (''POPCAT'', 68), (''CUMMIES'', 69),
      (''S'', 70), (''AIXBT'', 71), (''SPX'', 72), (''KMNO'', 73), (''MOODENG'', 74),
      (''BANANA'', 75), (''PONKE'', 76), (''SSB'', 77), (''KAIA'', 78), (''CETUS'', 79),
      (''KAS'', 80), (''BEAM'', 81), (''CAKE'', 82), (''ENA'', 83), (''ENA'', 84),
      (''ENA'', 85), (''ENA'', 86), (''ENA'', 87), (''ENA'', 88), (''ENA'', 89),
      (''ENA'', 90), (''ENA'', 91), (''ENA'', 92), (''ENA'', 93), (''ENA'', 94),
      (''ENA'', 95), (''ENA'', 96), (''ENA'', 97), (''ENA'', 98), (''ENA'', 99)]"

definition ASSET_IDS :: "(string \<times> int) list" where
  "ASSET_IDS = py_dict ASSET_IDS_literal"

definition SPOT_ASSET_OFFSET :: int where
  "SPOT_ASSET_OFFSET = 10000"

text \<open>The two local tables of the spot branches.\<close>

definition spot_indices :: "(string \<times> int) list" where
  "spot_indices = py_dict [(''PURR/USDC'', 0), (''HYPE/USDC'', 1)]"

definition spot_symbols :: "(int \<times> string) list" where
  "spot_symbols = py_dict [(0, ''PURR/USDC''), (1, ''HYPE/USDC'')]"

definition get_asset_id :: "(string \<Rightarrow> string) \<Rightarrow> string \<Rightarrow> bool \<Rightarrow> int" where
  "get_asset_id unicode_upper symbol is_spot =
     (if is_spot then
        (let spot_index = dict_get spot_indices symbol 0
         in SPOT_ASSET_OFFSET + spot_index)
      else dict_get ASSET_IDS (upper unicode_upper symbol) 0)"

text \<open>
  \<^verbatim>\<open>get_symbol_from_asset_id\<close>. The spot branch builds the default
  \<^verbatim>\<open>f"SPOT_{spot_index}"\<close> before it looks the index up, as the argument of
  \<^verbatim>\<open>get\<close>; the perpetual branch walks \<^verbatim>\<open>ASSET_IDS.items()\<close> in order,
  returns the first symbol whose id matches and builds
  \<^verbatim>\<open>f"UNKNOWN_{asset_id}"\<close> when there is none. Printing the number raises for an
  integer of more than 4300 digits.
\<close>

definition get_symbol_from_asset_id :: "int \<Rightarrow> py_error + string" where
  "get_symbol_from_asset_id asset_id =
     (if asset_id \<ge> SPOT_ASSET_OFFSET then
        (let spot_index = asset_id - SPOT_ASSET_OFFSET
         in case py_str_int spot_index of
              Inl e \<Rightarrow> Inl e
            | Inr digits \<Rightarrow> Inr (dict_get spot_symbols spot_index (''SPOT_'' @ digits)))
      else
        (case find (\<lambda>(symbol, aid). aid = asset_id) ASSET_IDS of
           Some (symbol, aid) \<Rightarrow> Inr symbol
         | None \<Rightarrow>
             (case py_str_int asset_id of
                Inl e \<Rightarrow> Inl e
              | Inr digits \<Rightarrow> Inr (''UNKNOWN_'' @ digits))))"

section \<open>Signature engine: nonce sequencing\<close>

text \<open>
  \<^verbatim>\<open>src/src/wallet/signature_engine.py\<close>. Of the engine's fields only
  \<^verbatim>\<open>current_nonce\<close> is read or written by the two nonce methods; it is a
  Python integer (unbounded), seeded from the clock in the constructor.
\<close>

record SignatureEngine =
  address :: string
  current_nonce :: int

text \<open>
  \<^verbatim>\<open>get_next_nonce\<close>: return the counter, then increment it. The result is
  the pair of the returned nonce and the engine after the call.
\<close>

definition get_next_nonce :: "SignatureEngine \<Rightarrow> int \<times> SignatureEngine" where
  "get_next_nonce self =
     (let nonce = current_nonce self
      in (nonce, self\<lparr>current_nonce := current_nonce self + 1\<rparr>))"

text \<open>\<^verbatim>\<open>reset_nonce\<close>: \<^verbatim>\<open>self.current_nonce = max(self.current_nonce, nonce + 1)\<close>.\<close>

definition reset_nonce :: "SignatureEngine \<Rightarrow> int \<Rightarrow> SignatureEngine" where
  "reset_nonce self nonce = self\<lparr>current_nonce := max (current_nonce self) (nonce + 1)\<rparr>"

text \<open>
  A caller's use of one engine: a sequence of calls, each either
  \<^verbatim>\<open>get_next_nonce()\<close> or \<^verbatim>\<open>reset_nonce(n)\<close>. \<open>run_calls\<close> performs
  them in order and collects the nonces that were issued.
\<close>

datatype nonce_call = GetNext | Reset int

fun run_calls :: "SignatureEngine \<Rightarrow> nonce_call list \<Rightarrow> int list \<times> SignatureEngine" where
  "run_calls self [] = ([], self)"
| "run_calls self (GetNext # cs) =
     (let (n, self') = get_next_nonce self;
          (ns, self'') = run_calls self' cs
      in (n # ns, self''))"
| "run_calls self (Reset n # cs) = run_calls (reset_nonce self n) cs"

section \<open>Permission controller\<close>

text \<open>
  \<^verbatim>\<open>src/src/wallet/permission_controller.py\<close>. A Python float is a finite value,
  written as the real number it denotes, an infinity or not-a-number. The values a
  caller puts in a parameter dictionary are modelled by \<open>pyval\<close>: \<^verbatim>\<open>None\<close>,
  booleans, integers (unbounded), floats and strings.
\<close>

datatype pyfloat = FFinite real | FInf | FNegInf | FNaN

datatype pyval = PNone | PBool bool | PInt int | PFloat pyfloat | PStr string

type_synonym pydict = "string \<rightharpoonup> pyval"

text \<open>
  What the machine decides is taken as given: the rounded product and the rounded sum
  of two floats, the float nearest to an integer (\<open>None\<close> when the integer is too
  large for a float, where Python raises \<^verbatim>\<open>OverflowError\<close>), and a string
  repeated a number of times (the exception where the count does not fit an index or
  the result does not fit in memory; otherwise the repeated string, empty for a count
  below one).
\<close>

record machine_ops =
  fmul :: "pyfloat \<Rightarrow> pyfloat \<Rightarrow> pyfloat"
  fadd :: "pyfloat \<Rightarrow> pyfloat \<Rightarrow> pyfloat"
  float_of_int :: "int \<Rightarrow> pyfloat option"
  str_repeat :: "string \<Rightarrow> int \<Rightarrow> py_error + string"

definition type_name :: "pyval \<Rightarrow> string" where
  "type_name v =
     (case v of PNone \<Rightarrow> ''NoneType'' | PBool b \<Rightarrow> ''bool''
      | PInt i \<Rightarrow> ''int'' | PFloat f \<Rightarrow> ''float'' | PStr s \<Rightarrow> ''str'')"

text \<open>The integer a value stands for in arithmetic: \<^verbatim>\<open>bool\<close> is a subtype of \<^verbatim>\<open>int\<close>.\<close>

definition as_int :: "pyval \<Rightarrow> int option" where
  "as_int v =
     (case v of PInt i \<Rightarrow> Some i | PBool b \<Rightarrow> Some (if b then 1 else 0)
      | PNone \<Rightarrow> None | PFloat f \<Rightarrow> None | PStr s \<Rightarrow> None)"

text \<open>
  The exact value of a number, for comparisons: Python compares an integer with a
  float by their values, without rounding the integer.
\<close>

definition num_value :: "pyval \<Rightarrow> pyfloat option" where
  "num_value v =
     (case v of PFloat f \<Rightarrow> Some f
      | _ \<Rightarrow> (case as_int v of Some i \<Rightarrow> Some (FFinite (real_of_int i)) | None \<Rightarrow> None))"

text \<open>
  A number as a float operand of float arithmetic: a float is itself, an integer is
  converted, which may raise; \<open>None\<close> for a value that is no number.
\<close>

definition as_float :: "machine_ops \<Rightarrow> pyval \<Rightarrow> (py_error + pyfloat) option" where
  "as_float fo v =
     (case v of PFloat f \<Rightarrow> Some (Inr f)
      | _ \<Rightarrow>
          (case as_int v of
             None \<Rightarrow> None
           | Some i \<Rightarrow>
               (case float_of_int fo i of
                  None \<Rightarrow> Some (Inl OverflowError)
                | Some f \<Rightarrow> Some (Inr f))))"

definition truthy :: "pyval \<Rightarrow> bool" where
  "truthy v =
     (case v of PNone \<Rightarrow> False | PBool b \<Rightarrow> b | PInt i \<Rightarrow> i \<noteq> 0
      | PFloat f \<Rightarrow> f \<noteq> FFinite 0 | PStr s \<Rightarrow> s \<noteq> [])"

definition pget :: "pydict \<Rightarrow> string \<Rightarrow> pyval \<Rightarrow> pyval" where
  "pget d k dflt = (case d k of Some v \<Rightarrow> v | None \<Rightarrow> dflt)"

text \<open>
  \<^verbatim>\<open>a * b\<close>: the exact product of two integers; a string repeated when the
  other operand is an integer; the float product when one operand is a float and the
  other a number, the integer among them converted first; otherwise a
  \<^verbatim>\<open>TypeError\<close>.
\<close>

definition py_mul :: "machine_ops \<Rightarrow> pyval \<Rightarrow> pyval \<Rightarrow> py_error + pyval" where
  "py_mul fo a b =
     (case (as_int a, as_int b) of
        (Some x, Some y) \<Rightarrow> Inr (PInt (x * y))
      | _ \<Rightarrow>
          (case (a, as_int a, b, as_int b) of
             (PStr s, _, _, Some n) \<Rightarrow> map_sum id PStr (str_repeat fo s n)
           | (_, Some n, PStr s, _) \<Rightarrow> map_sum id PStr (str_repeat fo s n)
           | (PStr s, _, _, _) \<Rightarrow> Inl (TypeError ''*'' (type_name a) (type_name b))
           | (_, _, PStr s, _) \<Rightarrow> Inl (TypeError ''*'' (type_name a) (type_name b))
           | _ \<Rightarrow>
               (case (as_float fo a, as_float fo b) of
                  (Some (Inr f), Some (Inr g)) \<Rightarrow> Inr (PFloat (fmul fo f g))
                | (Some (Inl e), Some _) \<Rightarrow> Inl e
                | (Some _, Some (Inl e)) \<Rightarrow> Inl e
                | _ \<Rightarrow> Inl (TypeError ''*'' (type_name a) (type_name b)))))"

text \<open>
  The order of two floats by value: not-a-number is neither above nor below
  anything.
\<close>

fun float_gt :: "pyfloat \<Rightarrow> pyfloat \<Rightarrow> bool" where
  "float_gt FNaN y = False"
| "float_gt x FNaN = False"
| "float_gt FInf FInf = False"
| "float_gt FInf y = True"
| "float_gt x FInf = False"
| "float_gt FNegInf y = False"
| "float_gt (FFinite x) FNegInf = True"
| "float_gt (FFinite x) (FFinite y) = (x > y)"

text \<open>
  \<^verbatim>\<open>v > x\<close> and \<^verbatim>\<open>v < x\<close> for a number with the exact value \<open>x\<close> and the
  type named \<open>ty\<close>: defined when \<open>v\<close> is a number.
\<close>

definition py_gt :: "pyval \<Rightarrow> pyfloat \<Rightarrow> string \<Rightarrow> py_error + bool" where
  "py_gt v x ty =
     (case num_value v of
        Some f \<Rightarrow> Inr (float_gt f x)
      | None \<Rightarrow> Inl (TypeError ''>'' (type_name v) ty))"

definition py_lt :: "pyval \<Rightarrow> pyfloat \<Rightarrow> string \<Rightarrow> py_error + bool" where
  "py_lt v x ty =
     (case num_value v of
        Some f \<Rightarrow> Inr (float_gt x f)
      | None \<Rightarrow> Inl (TypeError ''<'' (type_name v) ty))"

text \<open>
  \<^verbatim>\<open>t += v\<close> for a float \<open>t\<close>: the float sum with a number, the integer
  converted first.
\<close>

definition float_iadd :: "machine_ops \<Rightarrow> pyfloat \<Rightarrow> pyval \<Rightarrow> py_error + pyfloat" where
  "float_iadd fo t v =
     (case as_float fo v of
        Some (Inr g) \<Rightarrow> Inr (fadd fo t g)
      | Some (Inl e) \<Rightarrow> Inl e
      | None \<Rightarrow> Inl (TypeError ''+='' ''float'' (type_name v)))"

text \<open>
  A formatted string is kept as its parts: the literal text and the values
  interpolated into it. How Python prints a float, and in which order it lists a
  set, is not part of the controller. \<open>fmt\<close> is the interpolation of a value:
  printing an integer of more than 4300 digits raises.
\<close>

datatype fpart =
    Lit string
  | Val pyval
  | FloatVal pyfloat
  | SetVal "string set"
  | ExnVal py_error

type_synonym fstring = "fpart list"

definition fmt :: "pyval \<Rightarrow> py_error + fpart" where
  "fmt v =
     (case v of
        PInt i \<Rightarrow> (case py_str_int i of Inl e \<Rightarrow> Inl e | Inr digits \<Rightarrow> Inr (Val v))
      | _ \<Rightarrow> Inr (Val v))"

text \<open>
  A configured position size is the integer 0 for the read-only level and a float
  otherwise; the largest loss of a day is the float 0.0 or a profit-and-loss value
  that was logged.
\<close>

datatype pynum = NInt int | NFloat pyfloat

definition as_num :: "pyval \<Rightarrow> pynum option" where
  "as_num v =
     (case v of PFloat f \<Rightarrow> Some (NFloat f)
      | _ \<Rightarrow> (case as_int v of Some i \<Rightarrow> Some (NInt i) | None \<Rightarrow> None))"

definition num_exact :: "pynum \<Rightarrow> pyfloat" where
  "num_exact n = (case n of NInt i \<Rightarrow> FFinite (real_of_int i) | NFloat f \<Rightarrow> f)"

text \<open>\<^verbatim>\<open>min(a, b)\<close> of two numbers: \<open>b\<close> when it is below \<open>a\<close>, else \<open>a\<close>.\<close>

definition py_min :: "pynum \<Rightarrow> pynum \<Rightarrow> pynum" where
  "py_min a b = (if float_gt (num_exact a) (num_exact b) then b else a)"

record level_config =
  description :: string
  allowed_actions :: "string list"
  max_leverage :: int
  max_position_size :: pynum
  risk_level :: string

record risk_limits =
  max_total_exposure :: pyfloat
  max_daily_loss :: pyfloat
  max_concurrent_positions :: int
  require_ai_confirmation :: bool

record daily_stats =
  date :: string
  total_trades :: int
  total_volume :: pyfloat
  total_pnl :: pyfloat
  max_loss :: pynum

record log_entry =
  timestamp :: string
  wallet_address :: string
  agent_name :: "string option"
  action :: string
  params :: pydict
  result :: pydict
  entry_risk_level :: pyval

record PermissionController =
  permission_levels :: "(string \<times> level_config) list"
  global_risk_limits :: risk_limits
  action_log :: "log_entry list"
  daily_stats :: daily_stats

text \<open>
  The environment variables the constructor reads, the numbers already parsed;
  \<open>None\<close> is an unset variable, for which the constructor has a default.
\<close>

record environ =
  MAX_LEVERAGE :: "int option"
  MAX_POSITION_SIZE_USD :: "pyfloat option"
  MAX_TOTAL_EXPOSURE :: "pyfloat option"
  MAX_DAILY_LOSS :: "pyfloat option"
  MAX_CONCURRENT_POSITIONS :: "int option"
  REQUIRE_AI_CONFIRMATION :: "string option"

definition env_get :: "'a option \<Rightarrow> 'a \<Rightarrow> 'a" where
  "env_get v dflt = (case v of Some x \<Rightarrow> x | None \<Rightarrow> dflt)"

definition fresh_daily_stats :: "string \<Rightarrow> daily_stats" where
  "fresh_daily_stats today =
     \<lparr>date = today, total_trades = 0, total_volume = FFinite 0, total_pnl = FFinite 0,
      max_loss = NFloat (FFinite 0)\<rparr>"

text \<open>
  \<^verbatim>\<open>__init__\<close>; \<open>today\<close> is \<^verbatim>\<open>datetime.now().date().isoformat()\<close> and
  \<open>unicode_lower\<close> is \<^verbatim>\<open>str.lower\<close> on text outside ASCII.
\<close>

definition PermissionController_init ::
  "(string \<Rightarrow> string) \<Rightarrow> environ \<Rightarrow> string \<Rightarrow> PermissionController" where
  "PermissionController_init unicode_lower env today =
     \<lparr>permission_levels = py_dict
        [(''read_only'',
          \<lparr>description = ''Read-only access (positions, balance, market data)'',
           allowed_actions =
             [''get_positions'', ''get_balance'', ''get_account_value'', ''get_data''],
           max_leverage = 1,
           max_position_size = NInt 0,
           risk_level = ''low''\<rparr>),
         (''trading'',
          \<lparr>description = ''Full trading access with risk limits'',
           allowed_actions =
             [''get_positions'', ''get_balance'', ''get_account_value'', ''get_data'',
              ''place_order'', ''cancel_order'', ''modify_order'', ''close_position'',
              ''update_leverage'', ''update_margin''],
           max_leverage = env_get (MAX_LEVERAGE env) 10,
           max_position_size = NFloat (env_get (MAX_POSITION_SIZE_USD env) (FFinite 1000)),
           risk_level = ''medium''\<rparr>),
         (''full_access'',
          \<lparr>description = ''Complete wallet access including transfers'',
           allowed_actions =
             [''*'', ''transfer_funds'', ''withdraw'', ''deposit'', ''send_asset'',
              ''approve_wallet'', ''manage_permissions''],
           max_leverage = env_get (MAX_LEVERAGE env) 50,
           max_position_size = NFloat (env_get (MAX_POSITION_SIZE_USD env) (FFinite 10000)),
           risk_level = ''high''\<rparr>)],
      global_risk_limits =
        \<lparr>max_total_exposure = env_get (MAX_TOTAL_EXPOSURE env) (FFinite 50000),
         max_daily_loss = env_get (MAX_DAILY_LOSS env) (FFinite 1000),
         max_concurrent_positions = env_get (MAX_CONCURRENT_POSITIONS env) 10,
         require_ai_confirmation =
           (lower unicode_lower (env_get (REQUIRE_AI_CONFIRMATION env) ''true'') = ''true'')\<rparr>,
      action_log = [],
      daily_stats = fresh_daily_stats today\<rparr>"

text \<open>The environment with no variable set: the constructor's defaults apply.\<close>

definition empty_environ :: environ where
  "empty_environ =
     \<lparr>MAX_LEVERAGE = None, MAX_POSITION_SIZE_USD = None, MAX_TOTAL_EXPOSURE = None,
      MAX_DAILY_LOSS = None, MAX_CONCURRENT_POSITIONS = None,
      REQUIRE_AI_CONFIRMATION = None\<rparr>"

text \<open>
  The dictionaries the checks return. A key that a dictionary may lack is an option;
  \<^verbatim>\<open>limits\<close> is \<open>Some None\<close> for the empty dictionary.
\<close>

record level_limits =
  lim_max_leverage :: int
  lim_max_position_size :: pynum
  lim_risk_level :: string

record result_dict =
  allowed :: bool
  reason :: "fstring option"
  requires_ai_confirmation :: "bool option"
  res_risk_level :: "string option"
  limits :: "level_limits option option"

definition apostrophe :: string where
  "apostrophe = [CHR 0x27]"

text \<open>
  The loop of \<^verbatim>\<open>_check_permissions\<close> over the wallet's permission levels:
  \<open>None\<close> when a level holding \<^verbatim>\<open>"*"\<close> is met (the method returns there),
  otherwise the set of allowed actions gathered.
\<close>

fun aggregate_allowed ::
  "(string \<times> level_config) list \<Rightarrow> string list \<Rightarrow> string set \<Rightarrow> string set option" where
  "aggregate_allowed levels [] allowed_set = Some allowed_set"
| "aggregate_allowed levels (perm_level # rest) allowed_set =
     (let level_actions =
            (case map_of levels perm_level of
               Some level_config \<Rightarrow> allowed_actions level_config
             | None \<Rightarrow> [])
      in if ''*'' \<in> set level_actions then None
         else aggregate_allowed levels rest (allowed_set \<union> set level_actions))"

definition check_permissions :: "PermissionController \<Rightarrow> string \<Rightarrow> string list \<Rightarrow> result_dict" where
  "check_permissions self act wallet_permissions =
     (case aggregate_allowed (permission_levels self) wallet_permissions {} of
        None \<Rightarrow>
          \<lparr>allowed = True, reason = Some [Lit ''Full access granted''],
           requires_ai_confirmation = None, res_risk_level = None, limits = None\<rparr>
      | Some allowed_set \<Rightarrow>
          if act \<in> allowed_set then
            \<lparr>allowed = True, reason = Some [Lit ''Action permitted''],
             requires_ai_confirmation = None, res_risk_level = None, limits = None\<rparr>
          else
            \<lparr>allowed = False,
             reason = Some [Lit (''Action '' @ apostrophe), Val (PStr act),
                            Lit (apostrophe @ '' not permitted. Allowed: ''),
                            SetVal allowed_set],
             requires_ai_confirmation = None, res_risk_level = None, limits = None\<rparr>)"

definition denied :: "fstring \<Rightarrow> string \<Rightarrow> result_dict" where
  "denied why level =
     \<lparr>allowed = False, reason = Some why, requires_ai_confirmation = None,
      res_risk_level = Some level, limits = None\<rparr>"

text \<open>
  The two blocks in the \<^verbatim>\<open>try\<close> of \<^verbatim>\<open>_check_risk_limits\<close>. Each gives
  \<open>Inl\<close> for an exception, \<open>Inr (Some r)\<close> when it returns the denial \<open>r\<close>, and
  \<open>Inr None\<close> when control goes on.
\<close>

definition trading_action_checks ::
  "machine_ops \<Rightarrow> PermissionController \<Rightarrow> string \<Rightarrow> pydict \<Rightarrow>
   py_error + result_dict option" where
  "trading_action_checks fo self act ps =
     (if act \<in> set [''place_order'', ''modify_order''] then
        (let size = pget ps ''size'' (PInt 0);
             leverage = pget ps ''leverage'' (PInt 1)
         in case py_mul fo size leverage of
              Inl e \<Rightarrow> Inl e
            | Inr notional \<Rightarrow>
                (case py_gt notional (max_total_exposure (global_risk_limits self)) ''float'' of
                   Inl e \<Rightarrow> Inl e
                 | Inr True \<Rightarrow>
                     (case fmt notional of
                        Inl e \<Rightarrow> Inl e
                      | Inr shown \<Rightarrow>
                          Inr (Some (denied
                            [Lit ''Position size $'', shown, Lit '' exceeds limit $'',
                             FloatVal (max_total_exposure (global_risk_limits self))]
                            ''high'')))
                 | Inr False \<Rightarrow> Inr None))
      else Inr None)"

definition withdrawal_transfer_checks ::
  "PermissionController \<Rightarrow> string \<Rightarrow> pydict \<Rightarrow> py_error + result_dict option" where
  "withdrawal_transfer_checks self act ps =
     (if act \<in> set [''withdraw'', ''transfer_funds'', ''send_asset''] then
        (let amount = pget ps ''amount'' (PInt 0)
         in case py_gt amount (max_daily_loss (global_risk_limits self)) ''float'' of
              Inl e \<Rightarrow> Inl e
            | Inr True \<Rightarrow>
                (case fmt amount of
                   Inl e \<Rightarrow> Inl e
                 | Inr shown \<Rightarrow>
                     Inr (Some (denied
                       [Lit ''Amount $'', shown, Lit '' exceeds daily limit $'',
                        FloatVal (max_daily_loss (global_risk_limits self))] ''high'')))
            | Inr False \<Rightarrow> Inr None)
      else Inr None)"

definition check_risk_limits ::
  "machine_ops \<Rightarrow> PermissionController \<Rightarrow> string \<Rightarrow> string \<Rightarrow> pydict \<Rightarrow> result_dict"
  where
  "check_risk_limits fo self wallet act ps =
     (case (case trading_action_checks fo self act ps of
              Inl e \<Rightarrow> Inl e
            | Inr (Some r) \<Rightarrow> Inr r
            | Inr None \<Rightarrow>
                (case withdrawal_transfer_checks self act ps of
                   Inl e \<Rightarrow> Inl e
                 | Inr (Some r) \<Rightarrow> Inr r
                 | Inr None \<Rightarrow>
                     Inr \<lparr>allowed = True, reason = Some [Lit ''Risk limits OK''],
                          requires_ai_confirmation = None, res_risk_level = None,
                          limits = None\<rparr>)) of
        Inr r \<Rightarrow> r
      | Inl e \<Rightarrow> denied [Lit ''Risk check error: '', ExnVal e] ''medium'')"

definition requires_ai_confirmation_check ::
  "machine_ops \<Rightarrow> PermissionController \<Rightarrow> string \<Rightarrow> pydict \<Rightarrow> py_error + bool" where
  "requires_ai_confirmation_check fo self act ps =
     (if \<not> require_ai_confirmation (global_risk_limits self) then Inr False
      else if act \<in> set [''withdraw'', ''transfer_funds'', ''send_asset'',
                          ''approve_wallet'', ''manage_permissions''] then Inr True
      else if act \<in> set [''place_order'', ''modify_order''] then
        (let size = pget ps ''size'' (PInt 0);
             leverage = pget ps ''leverage'' (PInt 1)
         in case py_mul fo size leverage of
              Inl e \<Rightarrow> Inl e
            | Inr notional \<Rightarrow>
                (case py_gt notional (FFinite 5000) ''int'' of
                   Inl e \<Rightarrow> Inl e
                 | Inr True \<Rightarrow> Inr True
                 | Inr False \<Rightarrow> Inr False))
      else Inr False)"

definition get_action_risk_level ::
  "machine_ops \<Rightarrow> string \<Rightarrow> pydict \<Rightarrow> py_error + string" where
  "get_action_risk_level fo act ps =
     (if act \<in> set [''withdraw'', ''transfer_funds'', ''send_asset'', ''approve_wallet'']
      then Inr ''high''
      else if act \<in> set [''place_order'', ''modify_order'', ''update_leverage''] then
        (let size = pget ps ''size'' (PInt 0);
             leverage = pget ps ''leverage'' (PInt 1)
         in case py_mul fo size leverage of
              Inl e \<Rightarrow> Inl e
            | Inr notional \<Rightarrow>
                (case py_gt notional (FFinite 2000) ''int'' of
                   Inl e \<Rightarrow> Inl e
                 | Inr True \<Rightarrow> Inr ''high''
                 | Inr False \<Rightarrow> Inr ''medium''))
      else Inr ''low'')"

text \<open>
  \<^verbatim>\<open>_get_action_limits\<close>: the first of the three level names, in this order,
  that the wallet holds decides; indexing \<^verbatim>\<open>permission_levels\<close> with it raises
  \<^verbatim>\<open>KeyError\<close> if the table lacks it.
\<close>

fun get_action_limits_loop ::
  "(string \<times> level_config) list \<Rightarrow> string list \<Rightarrow> string list \<Rightarrow>
   py_error + level_limits option" where
  "get_action_limits_loop levels [] wallet_permissions = Inr None"
| "get_action_limits_loop levels (perm_level # rest) wallet_permissions =
     (if perm_level \<in> set wallet_permissions then
        (case map_of levels perm_level of
           None \<Rightarrow> Inl (KeyError perm_level)
         | Some level_config \<Rightarrow>
             Inr (Some \<lparr>lim_max_leverage = max_leverage level_config,
                        lim_max_position_size = max_position_size level_config,
                        lim_risk_level = risk_level level_config\<rparr>))
      else get_action_limits_loop levels rest wallet_permissions)"

definition get_action_limits ::
  "PermissionController \<Rightarrow> string \<Rightarrow> string list \<Rightarrow> py_error + level_limits option" where
  "get_action_limits self act wallet_permissions =
     get_action_limits_loop (permission_levels self)
       [''full_access'', ''trading'', ''read_only''] wallet_permissions"

text \<open>
  \<^verbatim>\<open>validate_action\<close>. \<open>validate_action_body\<close> is the \<^verbatim>\<open>try\<close> block,
  with \<open>Inl\<close> for an exception raised in it; \<open>validate_action\<close> adds the
  \<^verbatim>\<open>except\<close> clause and returns the controller after the call next to the
  result.
\<close>

definition validate_action_body ::
  "machine_ops \<Rightarrow> PermissionController \<Rightarrow> string \<Rightarrow> string \<Rightarrow> pydict option \<Rightarrow>
   string list option \<Rightarrow> py_error + result_dict" where
  "validate_action_body fo self wallet act ps_opt wallet_permissions =
     (let ps = (case ps_opt of Some p \<Rightarrow> p | None \<Rightarrow> Map.empty);
          perms = (case wallet_permissions of Some l \<Rightarrow> l | None \<Rightarrow> []);
          permission_check = check_permissions self act perms
      in if \<not> allowed permission_check then
           (case reason permission_check of
              None \<Rightarrow> Inl (KeyError ''reason'')
            | Some why \<Rightarrow> Inr (denied why ''blocked''))
         else
           (let risk_check = check_risk_limits fo self wallet act ps
            in if \<not> allowed risk_check then
                 (case (reason risk_check, res_risk_level risk_check) of
                    (None, _) \<Rightarrow> Inl (KeyError ''reason'')
                  | (Some why, None) \<Rightarrow> Inl (KeyError ''risk_level'')
                  | (Some why, Some level) \<Rightarrow> Inr (denied why level))
               else
                 (case requires_ai_confirmation_check fo self act ps of
                    Inl e \<Rightarrow> Inl e
                  | Inr True \<Rightarrow>
                      Inr \<lparr>allowed = True,
                           reason = Some [Lit ''Action requires AI confirmation''],
                           requires_ai_confirmation = Some True,
                           res_risk_level = Some ''high'', limits = None\<rparr>
                  | Inr False \<Rightarrow>
                      (case get_action_risk_level fo act ps of
                         Inl e \<Rightarrow> Inl e
                       | Inr level \<Rightarrow>
                           (case get_action_limits self act perms of
                              Inl e \<Rightarrow> Inl e
                            | Inr lims \<Rightarrow>
                                Inr \<lparr>allowed = True, reason = None,
                                     requires_ai_confirmation = Some False,
                                     res_risk_level = Some level,
                                     limits = Some lims\<rparr>)))))"

definition validate_action ::
  "machine_ops \<Rightarrow> PermissionController \<Rightarrow> string \<Rightarrow> string \<Rightarrow> pydict option \<Rightarrow>
   string list option \<Rightarrow> result_dict \<times> PermissionController" where
  "validate_action fo self wallet act ps_opt wallet_permissions =
     (case validate_action_body fo self wallet act ps_opt wallet_permissions of
        Inr r \<Rightarrow> (r, self)
      | Inl e \<Rightarrow> (denied [Lit ''Validation error: '', ExnVal e] ''blocked'', self))"

text \<open>
  \<^verbatim>\<open>_update_daily_stats\<close>; \<open>today\<close> is the date read from the clock. The
  statistics are updated field by field, so an exception leaves the updates made
  before it: the result is the exception, if any, and the controller. Where
  \<^verbatim>\<open>pnl < 0\<close> is tested, \<^verbatim>\<open>pnl\<close> has been added to a float and so is a
  number.
\<close>

definition update_daily_stats ::
  "machine_ops \<Rightarrow> PermissionController \<Rightarrow> string \<Rightarrow> string \<Rightarrow> pydict \<Rightarrow> pydict \<Rightarrow>
   py_error option \<times> PermissionController" where
  "update_daily_stats fo self today act ps res =
     (let s0 = (if date (daily_stats self) \<noteq> today then fresh_daily_stats today
                else daily_stats self);
          (e1, s1) =
            (if act \<in> set [''place_order'', ''modify_order'']
                \<and> truthy (pget res ''success'' (PBool False)) then
               (let s = s0\<lparr>total_trades := total_trades s0 + 1\<rparr>;
                    size = pget ps ''size'' (PInt 0)
                in case float_iadd fo (total_volume s) size of
                     Inl e \<Rightarrow> (Some e, s)
                   | Inr t \<Rightarrow> (None, s\<lparr>total_volume := t\<rparr>))
             else (None, s0));
          (e2, s2) =
            (if e1 = None \<and> act = ''close_position'' then
               (let pnl = pget ps ''pnl'' (PInt 0)
                in case float_iadd fo (total_pnl s1) pnl of
                     Inl e \<Rightarrow> (Some e, s1)
                   | Inr t \<Rightarrow>
                       (let s = s1\<lparr>total_pnl := t\<rparr>
                        in (None,
                            case as_num pnl of
                              None \<Rightarrow> s
                            | Some n \<Rightarrow>
                                if float_gt (FFinite 0) (num_exact n)
                                then s\<lparr>max_loss := py_min (max_loss s) n\<rparr>
                                else s)))
             else (e1, s1))
      in (e2, self\<lparr>daily_stats := s2\<rparr>))"

text \<open>
  \<^verbatim>\<open>log_action\<close>; \<open>now\<close> is \<^verbatim>\<open>datetime.now().isoformat()\<close>. The entry is
  appended before the statistics are updated; an exception there leaves the method
  before the log is cut to its last 1000 entries.
\<close>

definition log_action ::
  "machine_ops \<Rightarrow> PermissionController \<Rightarrow> string \<Rightarrow> string \<Rightarrow> string \<Rightarrow> string \<Rightarrow> pydict \<Rightarrow>
   pydict \<Rightarrow> string option \<Rightarrow> py_error option \<times> PermissionController" where
  "log_action fo self now today wallet act ps res agent =
     (let log_entry =
            \<lparr>timestamp = now, wallet_address = wallet, agent_name = agent, action = act,
             params = ps, result = res,
             entry_risk_level = pget res ''risk_level'' (PStr ''unknown'')\<rparr>;
          self1 = self\<lparr>action_log := action_log self @ [log_entry]\<rparr>;
          (e, self2) = update_daily_stats fo self1 today act ps res
      in case e of
           Some err \<Rightarrow> (Some err, self2)
         | None \<Rightarrow>
             (None,
              if length (action_log self2) > 1000 then
                self2\<lparr>action_log :=
                  drop (length (action_log self2) - 1000) (action_log self2)\<rparr>
              else self2))"

definition emergency_stop ::
  "machine_ops \<Rightarrow> PermissionController \<Rightarrow> string \<Rightarrow> string \<Rightarrow> string \<Rightarrow> string \<Rightarrow>
   bool \<times> PermissionController" where
  "emergency_stop fo self now today wallet why =
     (case log_action fo self now today wallet ''emergency_stop''
             [''reason'' \<mapsto> PStr why]
             [''success'' \<mapsto> PBool True, ''action'' \<mapsto> PStr ''stopped'']
             (Some ''system'') of
        (None, self') \<Rightarrow> (True, self')
      | (Some e, self') \<Rightarrow> (False, self'))"

section \<open>Wallet registry\<close>

text \<open>
  \<^verbatim>\<open>src/src/wallet/wallet_registry.py\<close>. The registry is the dictionary
  \<^verbatim>\<open>self.registry\<close>, read from a JSON file at start: the key
  \<^verbatim>\<open>"wallets"\<close> and, in a wallet's entry, the keys
  \<^verbatim>\<open>"activity_count"\<close>, \<^verbatim>\<open>"approved_actions"\<close> and
  \<^verbatim>\<open>"blocked_actions"\<close> may be missing from it, so they are options. Writing
  the file is outside the model; every time stamp is a reading of the clock passed in.
\<close>

record activity_entry =
  act_timestamp :: string
  act_action :: string
  act_success :: bool
  act_details :: pydict

record wallet_entry =
  w_address :: string
  registered_at :: string
  is_active :: bool
  permissions :: "string list"
  w_agent_name :: string
  w_description :: string
  w_risk_level :: string
  max_daily_volume :: int
  last_activity :: "string option"
  activity_count :: "int option"
  approved_actions :: "activity_entry list option"
  blocked_actions :: "activity_entry list option"

record wallet_metadata =
  md_permissions :: "string list option"
  md_agent_name :: "string option"
  md_description :: "string option"
  md_risk_level :: "string option"
  md_max_daily_volume :: "int option"

record WalletRegistry =
  master_address :: string
  wallets :: "(string \<rightharpoonup> wallet_entry) option"
  last_updated :: string
  version :: string

definition save_registry :: "WalletRegistry \<Rightarrow> string \<Rightarrow> WalletRegistry" where
  "save_registry self now = self\<lparr>last_updated := now\<rparr>"

definition register_wallet ::
  "WalletRegistry \<Rightarrow> string \<Rightarrow> string \<Rightarrow> string \<Rightarrow> wallet_metadata \<Rightarrow>
   bool \<times> WalletRegistry" where
  "register_wallet self t_registered t_saved addr metadata =
     (let ws = (case wallets self of None \<Rightarrow> Map.empty | Some m \<Rightarrow> m);
          wallet_entry =
            \<lparr>w_address = addr,
             registered_at = t_registered,
             is_active = True,
             permissions = env_get (md_permissions metadata) [''read''],
             w_agent_name = env_get (md_agent_name metadata) [],
             w_description = env_get (md_description metadata) [],
             w_risk_level = env_get (md_risk_level metadata) ''medium'',
             max_daily_volume = env_get (md_max_daily_volume metadata) 10000,
             last_activity = None,
             activity_count = Some 0,
             approved_actions = Some [],
             blocked_actions = Some []\<rparr>
      in (True, save_registry (self\<lparr>wallets := Some (ws(addr \<mapsto> wallet_entry))\<rparr>) t_saved))"

text \<open>\<^verbatim>\<open>xs[-n:]\<close> of a list longer than \<open>n\<close>, for \<open>n > 0\<close>: its last \<open>n\<close> elements.\<close>

definition keep_last :: "nat \<Rightarrow> 'a list \<Rightarrow> 'a list" where
  "keep_last n xs = drop (length xs - n) xs"

text \<open>
  \<^verbatim>\<open>log_wallet_activity\<close>. A wallet entry without \<^verbatim>\<open>"activity_count"\<close>
  raises \<^verbatim>\<open>KeyError\<close> at the increment; the \<^verbatim>\<open>except\<close> clause swallows it,
  after \<^verbatim>\<open>"last_activity"\<close> was set.
\<close>

definition log_wallet_activity ::
  "WalletRegistry \<Rightarrow> string \<Rightarrow> string \<Rightarrow> string \<Rightarrow> string \<Rightarrow> string \<Rightarrow> bool \<Rightarrow>
   pydict option \<Rightarrow> WalletRegistry" where
  "log_wallet_activity self t_activity t_entry t_saved addr act success details =
     (case wallets self of
        None \<Rightarrow> self
      | Some ws \<Rightarrow>
          (case ws addr of
             None \<Rightarrow> self
           | Some wallet \<Rightarrow>
               (let wallet1 = wallet\<lparr>last_activity := Some t_activity\<rparr>
                in case activity_count wallet1 of
                     None \<Rightarrow> self\<lparr>wallets := Some (ws(addr \<mapsto> wallet1))\<rparr>
                   | Some c \<Rightarrow>
                       (let wallet2 = wallet1\<lparr>activity_count := Some (c + 1)\<rparr>;
                            action_log =
                              \<lparr>act_timestamp = t_entry, act_action = act,
                               act_success = success,
                               act_details =
                                 (case details of Some d \<Rightarrow> d | None \<Rightarrow> Map.empty)\<rparr>;
                            wallet3 =
                              (if success then
                                 (let l = (case approved_actions wallet2 of
                                             None \<Rightarrow> [] | Some xs \<Rightarrow> xs) @ [action_log]
                                  in wallet2\<lparr>approved_actions :=
                                       Some (if length l > 100 then keep_last 100 l else l)\<rparr>)
                               else
                                 (let l = (case blocked_actions wallet2 of
                                             None \<Rightarrow> [] | Some xs \<Rightarrow> xs) @ [action_log]
                                  in wallet2\<lparr>blocked_actions :=
                                       Some (if length l > 50 then keep_last 50 l else l)\<rparr>))
                        in save_registry
                             (self\<lparr>wallets := Some (ws(addr \<mapsto> wallet3))\<rparr>) t_saved))))"

text \<open>One call of \<^verbatim>\<open>log_wallet_activity\<close> with its arguments and clock readings.\<close>

record activity_call =
  c_t_activity :: string
  c_t_entry :: string
  c_t_saved :: string
  c_wallet :: string
  c_action :: string
  c_success :: bool
  c_details :: "pydict option"

definition log_call :: "WalletRegistry \<Rightarrow> activity_call \<Rightarrow> WalletRegistry" where
  "log_call self c =
     log_wallet_activity self (c_t_activity c) (c_t_entry c) (c_t_saved c)
       (c_wallet c) (c_action c) (c_success c) (c_details c)"

text \<open>
  The registry \<^verbatim>\<open>_load_registry\<close> returns when there is no file to read, and
  \<^verbatim>\<open>get_wallet_info\<close>: the entry of a wallet, if any.
\<close>

definition load_registry_default :: "string \<Rightarrow> WalletRegistry" where
  "load_registry_default now =
     \<lparr>master_address = [], wallets = Some Map.empty, last_updated = now,
      version = ''1.0.0''\<rparr>"

definition get_wallet_info :: "WalletRegistry \<Rightarrow> string \<Rightarrow> wallet_entry option" where
  "get_wallet_info self addr =
     (case wallets self of None \<Rightarrow> None | Some ws \<Rightarrow> ws addr)"

text \<open>The bound of the two activity logs of a wallet entry, as a test.\<close>

definition within_caps :: "wallet_entry \<Rightarrow> bool" where
  "within_caps w =
     (length (case approved_actions w of None \<Rightarrow> [] | Some xs \<Rightarrow> xs) \<le> 100
      \<and> length (case blocked_actions w of None \<Rightarrow> [] | Some xs \<Rightarrow> xs) \<le> 50)"

section \<open>Streaming client\<close>

text \<open>
  \<^verbatim>\<open>src/src/hyperliquid/websocket.py\<close>. The client's state is the fields its
  connection and subscription methods use. Three more fields record what the client
  does to the outside: \<open>opened\<close> counts the sockets opened so far (a socket is
  named by its number), \<open>sent\<close> lists the messages sent, each with the socket it
  went to, and \<open>emitted\<close> lists the events given to \<^verbatim>\<open>_emit\<close>. The callbacks
  registered for an event are the caller's code and are not run here. \<open>attempts\<close>
  counts the calls of \<^verbatim>\<open>websockets.connect\<close>; the network is a function
  telling, for each attempt, whether it succeeds.
\<close>

datatype task_state = Running | Done

type_synonym subscription = "(string \<times> string) list"

record ws_message =
  msg_method :: string
  msg_subscription :: subscription

record HyperliquidWebSocket =
  max_reconnects :: int
  websocket :: "nat option"
  connected :: bool
  reconnect_count :: int
  subscriptions :: "(string \<times> subscription) list"
  reconnect_task :: "task_state option"
  opened :: nat
  attempts :: nat
  sent :: "(nat \<times> ws_message) list"
  emitted :: "string list"

definition HyperliquidWebSocket_init :: "int \<Rightarrow> HyperliquidWebSocket" where
  "HyperliquidWebSocket_init max_rc =
     \<lparr>max_reconnects = max_rc, websocket = None, connected = False, reconnect_count = 0,
      subscriptions = [], reconnect_task = None, opened = 0, attempts = 0, sent = [],
      emitted = []\<rparr>"

definition emit :: "HyperliquidWebSocket \<Rightarrow> string \<Rightarrow> HyperliquidWebSocket" where
  "emit self event = self\<lparr>emitted := emitted self @ [event]\<rparr>"

text \<open>
  \<^verbatim>\<open>connect\<close> and \<^verbatim>\<open>_handle_reconnect\<close> call each other. A failed
  \<^verbatim>\<open>connect\<close> calls \<^verbatim>\<open>_handle_reconnect\<close>, which, below the attempt limit,
  counts the attempt, sleeps, and starts \<^verbatim>\<open>connect\<close> as the reconnect task unless
  that task exists and is not done. Inside the reconnect task the task is running, so
  a failure there starts no further task; the task is done when its
  \<^verbatim>\<open>connect\<close> returns.
\<close>

function connect :: "(nat \<Rightarrow> bool) \<Rightarrow> HyperliquidWebSocket \<Rightarrow> HyperliquidWebSocket"
  and handle_reconnect :: "(nat \<Rightarrow> bool) \<Rightarrow> HyperliquidWebSocket \<Rightarrow> HyperliquidWebSocket"
where
  "connect net self =
     (if net (attempts self) then
        emit (self\<lparr>attempts := attempts self + 1,
                   websocket := Some (opened self + 1),
                   opened := opened self + 1,
                   connected := True,
                   reconnect_count := 0\<rparr>) ''connected''
      else handle_reconnect net (self\<lparr>attempts := attempts self + 1\<rparr>))"
| "handle_reconnect net self =
     (if reconnect_count self \<ge> max_reconnects self then self
      else if reconnect_task self \<noteq> Some Running then
        (connect net (self\<lparr>reconnect_count := reconnect_count self + 1,
                            reconnect_task := Some Running\<rparr>))
          \<lparr>reconnect_task := Some Done\<rparr>
      else self\<lparr>reconnect_count := reconnect_count self + 1\<rparr>)"
  by pat_completeness auto
termination
  by (relation "measure (\<lambda>x. case x of
        Inl (net, s) \<Rightarrow> (if reconnect_task s = Some Running then 1 else 3)
      | Inr (net, s) \<Rightarrow> (if reconnect_task s = Some Running then 0 else 2))") auto

text \<open>
  The end of \<^verbatim>\<open>_receive_loop\<close>, reached when the connection closes or fails: if
  the client still counts as connected, it is marked disconnected, the event is
  emitted and \<^verbatim>\<open>_handle_reconnect\<close> runs.
\<close>

definition receive_loop_exit ::
  "(nat \<Rightarrow> bool) \<Rightarrow> HyperliquidWebSocket \<Rightarrow> HyperliquidWebSocket" where
  "receive_loop_exit net self =
     (if connected self then
        handle_reconnect net (emit (self\<lparr>connected := False\<rparr>) ''disconnected'')
      else self)"

text \<open>
  \<^verbatim>\<open>_subscribe\<close>; \<open>send_ok\<close> tells whether \<^verbatim>\<open>websocket.send\<close> succeeds.
  The message is sent before the subscription is stored under its key, and a
  subscription without \<^verbatim>\<open>"type"\<close> raises there.
\<close>

definition sub_key :: "subscription \<Rightarrow> string option" where
  "sub_key sub =
     (case map_of sub ''type'' of
        None \<Rightarrow> None
      | Some ty \<Rightarrow> Some (ty @ ''_'' @ dict_get sub ''coin'' (dict_get sub ''user'' [])))"

definition subscribe ::
  "HyperliquidWebSocket \<Rightarrow> bool \<Rightarrow> subscription \<Rightarrow> bool \<times> HyperliquidWebSocket" where
  "subscribe self send_ok sub =
     (case (connected self, websocket self) of
        (True, Some sock) \<Rightarrow>
          (if \<not> send_ok then (False, self)
           else
             (let self1 = self\<lparr>sent := sent self @
                            [(sock, \<lparr>msg_method = ''subscribe'', msg_subscription = sub\<rparr>)]\<rparr>
              in case sub_key sub of
                   None \<Rightarrow> (False, self1)
                 | Some k \<Rightarrow>
                     (True, self1\<lparr>subscriptions :=
                              AList.update k sub (subscriptions self1)\<rparr>)))
      | _ \<Rightarrow> (False, self))"

definition unsubscribe ::
  "HyperliquidWebSocket \<Rightarrow> bool \<Rightarrow> subscription \<Rightarrow> bool \<times> HyperliquidWebSocket" where
  "unsubscribe self send_ok sub =
     (case (connected self, websocket self) of
        (True, Some sock) \<Rightarrow>
          (if \<not> send_ok then (False, self)
           else
             (let self1 = self\<lparr>sent := sent self @
                            [(sock, \<lparr>msg_method = ''unsubscribe'', msg_subscription = sub\<rparr>)]\<rparr>
              in case sub_key sub of
                   None \<Rightarrow> (False, self1)
                 | Some k \<Rightarrow>
                     (True, self1\<lparr>subscriptions :=
                              AList.delete k (subscriptions self1)\<rparr>)))
      | _ \<Rightarrow> (False, self))"

definition subscribe_trades ::
  "HyperliquidWebSocket \<Rightarrow> bool \<Rightarrow> string \<Rightarrow> bool \<times> HyperliquidWebSocket" where
  "subscribe_trades self send_ok coin =
     subscribe self send_ok (py_dict [(''type'', ''trades''), (''coin'', coin)])"

text \<open>The subscribe messages sent on a given socket.\<close>

definition subscribes_on :: "HyperliquidWebSocket \<Rightarrow> nat \<Rightarrow> subscription list" where
  "subscribes_on self sock =
     map (\<lambda>(s, m). msg_subscription m)
       (filter (\<lambda>(s, m). s = sock \<and> msg_method m = ''subscribe'') (sent self))"

section \<open>Protocol client: order actions\<close>

text \<open>
  \<^verbatim>\<open>src/src/hyperliquid/client.py\<close>. A JSON value, with a dictionary as the list
  of its items in insertion order.
\<close>

datatype json =
    JNull
  | JBool bool
  | JInt int
  | JStr string
  | JList "json list"
  | JObj "(string \<times> json) list"

record HyperliquidClient =
  testnet :: bool
  base_url :: string
  info_url :: string
  exchange_url :: string
  timeout :: int

text \<open>
  \<^verbatim>\<open>create_order_action\<close>. Price and size (\<open>sz\<close>) are floats, modelled by the real they
  denote; \<open>str\<close> stands for Python's \<^verbatim>\<open>str\<close> on a float. The method reads and
  writes no attribute of \<^verbatim>\<open>self\<close>.
\<close>

definition create_order_action ::
  "(real \<Rightarrow> string) \<Rightarrow> HyperliquidClient \<Rightarrow> int \<Rightarrow> bool \<Rightarrow> real \<Rightarrow> real \<Rightarrow> bool \<Rightarrow> string \<Rightarrow> json"
  where
  "create_order_action str self asset_id is_buy price sz reduce_only time_in_force =
     (let order = JObj
            [(''a'', JInt asset_id),
             (''b'', JBool is_buy),
             (''p'', JStr (str price)),
             (''s'', JStr (str sz)),
             (''r'', JBool reduce_only),
             (''t'', JObj
                [(if time_in_force \<noteq> ''Market'' then ''limit'' else ''market'',
                  JObj [(''tif'', JStr time_in_force)])])]
      in JObj [(''type'', JStr ''order''), (''orders'', JList [order]),
               (''grouping'', JStr ''na'')])"

text \<open>Reading a JSON dictionary: its keys in order, and the value under a key.\<close>

definition json_keys :: "json \<Rightarrow> string list" where
  "json_keys j = (case j of JObj kvs \<Rightarrow> map fst kvs | _ \<Rightarrow> [])"

definition json_get :: "json \<Rightarrow> string \<Rightarrow> json option" where
  "json_get j k = (case j of JObj kvs \<Rightarrow> map_of kvs k | _ \<Rightarrow> None)"

section \<open>Module-level signing helpers\<close>

text \<open>
  \<^verbatim>\<open>src/src/hyperliquid/signing.py\<close>. The library functions the helpers call
  (\<^verbatim>\<open>json.dumps\<close> with the separators and key sorting given,
  \<^verbatim>\<open>str.encode\<close>, \<^verbatim>\<open>hashlib.sha256(...).digest()\<close>, \<^verbatim>\<open>bytes.hex\<close>,
  \<^verbatim>\<open>encode_defunct\<close> and \<^verbatim>\<open>Account.sign_message\<close>) are taken as given;
  bytes are characters.
\<close>

type_synonym bytes = string

record Account =
  acct_address :: string
  acct_key :: bytes

record crypto_lib =
  json_dumps :: "json \<Rightarrow> string"
  encode_utf8 :: "string \<Rightarrow> bytes"
  sha256_digest :: "bytes \<Rightarrow> bytes"
  bytes_hex :: "bytes \<Rightarrow> string"
  encode_defunct :: "bytes \<Rightarrow> bytes"
  sign_message :: "Account \<Rightarrow> bytes \<Rightarrow> bytes"

record signature_dict =
  sig_hash :: string
  sig_signature :: string
  sig_sender :: string

definition sign_user_action :: "crypto_lib \<Rightarrow> json \<Rightarrow> Account \<Rightarrow> int \<Rightarrow> signature_dict" where
  "sign_user_action lib act account nonce =
     (let message = JObj [(''action'', act), (''nonce'', JInt nonce)];
          message_json = json_dumps lib message;
          message_bytes = encode_utf8 lib message_json;
          message_hash = sha256_digest lib message_bytes;
          signed_message = sign_message lib account (encode_defunct lib message_hash)
      in \<lparr>sig_hash = bytes_hex lib message_hash,
          sig_signature = bytes_hex lib signed_message,
          sig_sender = acct_address account\<rparr>)"

definition sign_l1_action :: "crypto_lib \<Rightarrow> json \<Rightarrow> Account \<Rightarrow> int \<Rightarrow> signature_dict" where
  "sign_l1_action lib act account nonce =
     (let message = JObj [(''action'', act), (''nonce'', JInt nonce)];
          message_json = json_dumps lib message;
          message_bytes = encode_utf8 lib message_json;
          message_hash = sha256_digest lib message_bytes;
          signed_message = sign_message lib account (encode_defunct lib message_hash)
      in \<lparr>sig_hash = bytes_hex lib message_hash,
          sig_signature = bytes_hex lib signed_message,
          sig_sender = acct_address account\<rparr>)"


section \<open>Properties of the nonce counter\<close>

lemma run_calls_lower_bound:
  "run_calls self cs = (ns, self') \<Longrightarrow>
     current_nonce self \<le> current_nonce self' \<and> (\<forall>n \<in> set ns. current_nonce self \<le> n)"
proof (induction cs arbitrary: self ns self')
  case Nil
  then show ?case by simp
next
  case (Cons c cs)
  show ?case
  proof (cases c)
    case GetNext
    obtain ms t where r: "run_calls (self\<lparr>current_nonce := current_nonce self + 1\<rparr>) cs = (ms, t)"
      by (cases "run_calls (self\<lparr>current_nonce := current_nonce self + 1\<rparr>) cs")
    from Cons.prems GetNext r have ns: "ns = current_nonce self # ms" and t: "self' = t"
      by (simp_all add: get_next_nonce_def)
    from Cons.IH [OF r] have "current_nonce self + 1 \<le> current_nonce t"
      and "\<forall>n \<in> set ms. current_nonce self + 1 \<le> n" by simp_all
    with ns t show ?thesis by auto
  next
    case (Reset k)
    with Cons.prems have r: "run_calls (reset_nonce self k) cs = (ns, self')" by simp
    from Cons.IH [OF r] show ?thesis by (auto simp: reset_nonce_def)
  qed
qed

lemma run_calls_increasing:
  "run_calls self cs = (ns, self') \<Longrightarrow> sorted_wrt (<) ns"
proof (induction cs arbitrary: self ns self')
  case Nil
  then show ?case by simp
next
  case (Cons c cs)
  show ?case
  proof (cases c)
    case GetNext
    obtain ms t where r: "run_calls (self\<lparr>current_nonce := current_nonce self + 1\<rparr>) cs = (ms, t)"
      by (cases "run_calls (self\<lparr>current_nonce := current_nonce self + 1\<rparr>) cs")
    from Cons.prems GetNext r have ns: "ns = current_nonce self # ms"
      by (simp add: get_next_nonce_def)
    from run_calls_lower_bound [OF r] have "\<forall>n \<in> set ms. current_nonce self < n" by auto
    with Cons.IH [OF r] ns show ?thesis by simp
  next
    case (Reset k)
    with Cons.prems have "run_calls (reset_nonce self k) cs = (ns, self')" by simp
    then show ?thesis by (rule Cons.IH)
  qed
qed

text \<open>
  Claim C3. On one engine, the nonces returned by any sequence of
  \<^verbatim>\<open>get_next_nonce\<close> calls, with \<^verbatim>\<open>reset_nonce\<close> calls interleaved
  anywhere, are strictly increasing and the counter never ends below where it
  started; and for every argument \<open>n\<close>, \<^verbatim>\<open>reset_nonce(n)\<close> leaves the counter
  at least its previous value and strictly above \<open>n\<close>.
\<close>

theorem nonce_strictly_increasing_never_lowered:
  "sorted_wrt (<) (fst (run_calls self cs))
   \<and> current_nonce self \<le> current_nonce (snd (run_calls self cs))
   \<and> fst (run_calls self (replicate N GetNext)) = map (\<lambda>i. current_nonce self + int i) [0..<N]
   \<and> current_nonce self \<le> current_nonce (reset_nonce self n)
   \<and> n < current_nonce (reset_nonce self n)"
proof -
  obtain ns t where r: "run_calls self cs = (ns, t)" by (cases "run_calls self cs")
  have a: "sorted_wrt (<) (fst (run_calls self cs))"
    using run_calls_increasing [OF r] r by simp
  have b: "current_nonce self \<le> current_nonce (snd (run_calls self cs))"
    using run_calls_lower_bound [OF r] r by simp
  have c: "fst (run_calls s (replicate N GetNext)) = map (\<lambda>i. current_nonce s + int i) [0..<N]"
    for s
  proof (induction N arbitrary: s)
    case 0
    show ?case by simp
  next
    case (Suc N)
    have "map (\<lambda>i. current_nonce s + int i) [0..<Suc N]
        = current_nonce s # map (\<lambda>i. current_nonce s + 1 + int i) [0..<N]"
      by (simp add: upt_conv_Cons map_Suc_upt [symmetric] del: upt_Suc)
    with Suc [of "s\<lparr>current_nonce := current_nonce s + 1\<rparr>"] show ?case
      by (simp add: get_next_nonce_def split_def del: upt_Suc)
  qed
  have d: "current_nonce self \<le> current_nonce (reset_nonce self n)"
    and e: "n < current_nonce (reset_nonce self n)"
    by (simp_all add: reset_nonce_def)
  from a b c d e show ?thesis by blast
qed

section \<open>Properties of the signing helpers\<close>

text \<open>
  Claim C10. In the module-level signing helpers, for every action, account and
  nonce, \<^verbatim>\<open>sign_user_action\<close> and \<^verbatim>\<open>sign_l1_action\<close> build the same
  message, hash it to the same value and return equal signature dictionaries.
\<close>

theorem sign_paths_identical:
  "sign_user_action lib act account nonce = sign_l1_action lib act account nonce
   \<and> sig_hash (sign_user_action lib act account nonce)
       = bytes_hex lib (sha256_digest lib (encode_utf8 lib
           (json_dumps lib (JObj [(''action'', act), (''nonce'', JInt nonce)]))))
   \<and> sig_hash (sign_l1_action lib act account nonce)
       = sig_hash (sign_user_action lib act account nonce)"
  by (simp add: sign_user_action_def sign_l1_action_def Let_def)

section \<open>Properties of order-action construction\<close>

text \<open>
  Claim C8. For every asset id, buy/sell flag, price, size, reduce-only flag and
  time-in-force, \<^verbatim>\<open>create_order_action\<close> does not depend on the client and
  returns a dictionary with exactly the keys \<^verbatim>\<open>type\<close>, \<^verbatim>\<open>orders\<close>,
  \<^verbatim>\<open>grouping\<close>, where \<^verbatim>\<open>type\<close> is \<^verbatim>\<open>"order"\<close>, \<^verbatim>\<open>grouping\<close> is
  \<^verbatim>\<open>"na"\<close> and \<^verbatim>\<open>orders\<close> is a list of one order with exactly the keys
  \<^verbatim>\<open>a, b, p, s, r, t\<close>, price and size being strings.
\<close>

theorem create_order_action_wire_shape:
  "create_order_action str c1 asset_id is_buy price sz reduce_only tif
     = create_order_action str c2 asset_id is_buy price sz reduce_only tif
   \<and> json_keys (create_order_action str c1 asset_id is_buy price sz reduce_only tif)
       = [''type'', ''orders'', ''grouping'']
   \<and> json_get (create_order_action str c1 asset_id is_buy price sz reduce_only tif) ''type''
       = Some (JStr ''order'')
   \<and> json_get (create_order_action str c1 asset_id is_buy price sz reduce_only tif) ''grouping''
       = Some (JStr ''na'')
   \<and> (\<exists>ord. json_get (create_order_action str c1 asset_id is_buy price sz reduce_only tif)
                 ''orders'' = Some (JList [ord])
          \<and> json_keys ord = [''a'', ''b'', ''p'', ''s'', ''r'', ''t'']
          \<and> json_get ord ''a'' = Some (JInt asset_id)
          \<and> json_get ord ''b'' = Some (JBool is_buy)
          \<and> json_get ord ''p'' = Some (JStr (str price))
          \<and> json_get ord ''s'' = Some (JStr (str sz))
          \<and> json_get ord ''r'' = Some (JBool reduce_only)
          \<and> json_get ord ''t'' =
               Some (JObj [(if tif \<noteq> ''Market'' then ''limit'' else ''market'',
                            JObj [(''tif'', JStr tif)])]))"
  by (simp add: create_order_action_def json_keys_def json_get_def Let_def)

section \<open>Properties of the asset directory\<close>

text \<open>The dictionary Python builds from the display: the later values of repeated keys win.\<close>

lemma ASSET_IDS_eq [code]: "ASSET_IDS =
     [(''BTC'', 0), (''ETH'', 1), (''SOL'', 2), (''ARB'', 3), (''APE'', 4),
      (''AVAX'', 5), (''BNB'', 6), (''DOGE'', 7), (''FTM'', 8), (''GMX'', 9),
      (''LINK'', 10), (''LTC'', 11), (''NEAR'', 12), (''OP'', 13), (''ORDI'', 14),
      (''PEPE'', 15), (''SHIB'', 16), (''SUI'', 17), (''SUSHI'', 18), (''TIA'', 47),
      (''TRX'', 20), (''UNI'', 21), (''WLD'', 22), (''XRP'', 23), (''ZKS'', 24),
      (''SEI'', 25), (''INJ'', 26), (''STX'', 27), (''FIL'', 28), (''ETC'', 29),
      (''CFX'', 30), (''ICP'', 31), (''APT'', 32), (''IMX'', 33), (''GALA'', 34),
      (''XLM'', 35), (''DOT'', 36), (''ADA'', 37), (''MATIC'', 38), (''ATOM'', 39),
      (''LDO'', 40), (''ONDO'', 41), (''ALT'', 42), (''JTO'', 43), (''ZRO'', 44),
      (''ENA'', 99), (''WIF'', 46), (''MERL'', 48), (''PYTH'', 49), (''REZ'', 50),
      (''STRK'', 51), (''TON'', 52), (''AXL'', 53), (''MYRO'', 54), (''MEW'', 55),
      (''AUCTION'', 56), (''RARI'', 57), (''BOME'', 58), (''PNUT'', 59), (''MOTHER'', 60),
      (''GRIFFAIN'', 61), (''AI16Z'', 62), (''FARTCOIN'', 63), (''GOAT'', 64), (''HYPER'', 65),
      (''TURBO'', 66), (''ZEREBRO'', 67), (''POPCAT'', 68), (''CUMMIES'', 69), (''S'', 70),
      (''AIXBT'', 71), (''SPX'', 72), (''KMNO'', 73), (''MOODENG'', 74), (''BANANA'', 75),
      (''PONKE'', 76), (''SSB'', 77), (''KAIA'', 78), (''CETUS'', 79), (''KAS'', 80),
      (''BEAM'', 81), (''CAKE'', 82)]"
  by code_simp

lemma spot_indices_eq: "spot_indices = [(''PURR/USDC'', 0), (''HYPE/USDC'', 1)]"
  by (simp add: spot_indices_def py_dict_def)

lemma spot_symbols_eq: "spot_symbols = [(0, ''PURR/USDC''), (1, ''HYPE/USDC'')]"
  by (simp add: spot_symbols_def py_dict_def)

lemma py_dict_distinct_keys_aux:
  "distinct (map fst d) \<Longrightarrow> distinct (map fst (foldl (\<lambda>d (k, v). AList.update k v d) d items))"
  by (induction items arbitrary: d) (auto simp: distinct_update)

lemma py_dict_distinct_keys: "distinct (map fst (py_dict items))"
  by (simp add: py_dict_def py_dict_distinct_keys_aux)

lemma find_by_value:
  "distinct (map snd d) \<Longrightarrow> (k, v) \<in> set d \<Longrightarrow> find (\<lambda>(s, a). a = v) d = Some (k, v)"
  by (induction d) (auto simp: image_iff)

lemma find_by_value_None:
  "v \<notin> snd ` set d \<Longrightarrow> find (\<lambda>(s, a). a = v) d = None"
  by (induction d) (auto simp: image_iff)

lemma ASSET_IDS_values_distinct: "distinct (map snd ASSET_IDS)"
  by code_simp

lemma ASSET_IDS_keys_ascii_upper:
  "list_all (\<lambda>(symbol, aid). is_ascii symbol \<and> map upper_char symbol = symbol) ASSET_IDS"
  by code_simp

lemma ASSET_IDS_keys_upper:
  "(symbol, aid) \<in> set ASSET_IDS \<Longrightarrow> upper unicode_upper symbol = symbol"
  using ASSET_IDS_keys_ascii_upper unfolding list_all_iff upper_def by fastforce

lemma ASSET_IDS_values_range:
  "list_all (\<lambda>(symbol, aid). 0 \<le> aid \<and> aid < SPOT_ASSET_OFFSET) ASSET_IDS"
  by code_simp

lemma ASSET_IDS_keys_not_sentinel:
  "list_all (\<lambda>(symbol, aid). take 8 symbol \<noteq> ''UNKNOWN_'' \<and> take 5 symbol \<noteq> ''SPOT_'')
     ASSET_IDS"
  by code_simp

lemma py_str_int_small: "\<bar>i\<bar> < 1000000 \<Longrightarrow> py_str_int i = Inr (str_int i)"
proof -
  assume a: "\<bar>i\<bar> < 1000000"
  have "(10::int) ^ 6 \<le> 10 ^ int_max_str_digits"
    unfolding int_max_str_digits_def by (rule power_increasing) simp_all
  moreover have "(10::int) ^ 6 = 1000000" by simp
  ultimately have "\<bar>i\<bar> < 10 ^ int_max_str_digits" using a by linarith
  then show ?thesis by (simp add: py_str_int_def)
qed

lemma perp_roundtrip:
  assumes "(symbol, aid) \<in> set ASSET_IDS"
  shows "get_asset_id unicode_upper symbol False = aid"
    and "get_symbol_from_asset_id aid = Inr symbol"
proof -
  have u: "upper unicode_upper symbol = symbol" using assms by (rule ASSET_IDS_keys_upper)
  have r: "aid < SPOT_ASSET_OFFSET"
    using assms ASSET_IDS_values_range unfolding list_all_iff by blast
  have "distinct (map fst ASSET_IDS)" by (simp add: ASSET_IDS_def py_dict_distinct_keys)
  then have "map_of ASSET_IDS symbol = Some aid" using assms by simp
  then show "get_asset_id unicode_upper symbol False = aid"
    by (simp add: get_asset_id_def dict_get_def u)
  have "find (\<lambda>(s, a). a = aid) ASSET_IDS = Some (symbol, aid)"
    using find_by_value [OF ASSET_IDS_values_distinct assms] .
  then show "get_symbol_from_asset_id aid = Inr symbol" using r
    by (simp add: get_symbol_from_asset_id_def)
qed

lemma spot_roundtrip:
  "get_symbol_from_asset_id (SPOT_ASSET_OFFSET + 0) = Inr ''PURR/USDC''"
  "get_symbol_from_asset_id (SPOT_ASSET_OFFSET + 1) = Inr ''HYPE/USDC''"
  "get_asset_id unicode_upper ''PURR/USDC'' True = SPOT_ASSET_OFFSET + 0"
  "get_asset_id unicode_upper ''HYPE/USDC'' True = SPOT_ASSET_OFFSET + 1"
  by (simp_all add: get_symbol_from_asset_id_def get_asset_id_def py_str_int_small
      spot_indices_eq spot_symbols_eq dict_get_def Let_def)

text \<open>
  Claim C5. For every entry of the perpetual directory \<^verbatim>\<open>ASSET_IDS\<close>, and for
  every entry of the two spot tables (spot ids being the spot index plus 10000),
  looking the id's symbol up raises nothing and gives the id back, and looking the
  symbol's id up gives the symbol back; \<^verbatim>\<open>is_spot\<close> names the namespace asked.
\<close>

theorem asset_id_symbol_roundtrip:
  "(\<forall>(symbol, aid) \<in> set ASSET_IDS.
      map_sum id (\<lambda>s. get_asset_id unicode_upper s False) (get_symbol_from_asset_id aid)
        = Inr aid
      \<and> get_symbol_from_asset_id (get_asset_id unicode_upper symbol False) = Inr symbol)
   \<and> (\<forall>(symbol, idx) \<in> set spot_indices.
      map_sum id (\<lambda>s. get_asset_id unicode_upper s True)
          (get_symbol_from_asset_id (SPOT_ASSET_OFFSET + idx))
        = Inr (SPOT_ASSET_OFFSET + idx)
      \<and> get_symbol_from_asset_id (get_asset_id unicode_upper symbol True) = Inr symbol)
   \<and> (\<forall>(idx, symbol) \<in> set spot_symbols.
      map_sum id (\<lambda>s. get_asset_id unicode_upper s True)
          (get_symbol_from_asset_id (SPOT_ASSET_OFFSET + idx))
        = Inr (SPOT_ASSET_OFFSET + idx)
      \<and> get_symbol_from_asset_id (get_asset_id unicode_upper symbol True) = Inr symbol)"
proof (intro conjI)
  show "\<forall>(symbol, aid) \<in> set ASSET_IDS.
      map_sum id (\<lambda>s. get_asset_id unicode_upper s False) (get_symbol_from_asset_id aid)
        = Inr aid
      \<and> get_symbol_from_asset_id (get_asset_id unicode_upper symbol False) = Inr symbol"
    using perp_roundtrip(1) [where unicode_upper = unicode_upper] perp_roundtrip(2) by auto
  show "\<forall>(symbol, idx) \<in> set spot_indices.
      map_sum id (\<lambda>s. get_asset_id unicode_upper s True)
          (get_symbol_from_asset_id (SPOT_ASSET_OFFSET + idx))
        = Inr (SPOT_ASSET_OFFSET + idx)
      \<and> get_symbol_from_asset_id (get_asset_id unicode_upper symbol True) = Inr symbol"
    using spot_roundtrip(1,2) spot_roundtrip(3,4) [of unicode_upper] by (simp add: spot_indices_eq)
  show "\<forall>(idx, symbol) \<in> set spot_symbols.
      map_sum id (\<lambda>s. get_asset_id unicode_upper s True)
          (get_symbol_from_asset_id (SPOT_ASSET_OFFSET + idx))
        = Inr (SPOT_ASSET_OFFSET + idx)
      \<and> get_symbol_from_asset_id (get_asset_id unicode_upper symbol True) = Inr symbol"
    using spot_roundtrip(1,2) spot_roundtrip(3,4) [of unicode_upper] by (simp add: spot_symbols_eq)
qed

theorem asset_id_symbol_roundtrip_witness:
  "(''ENA'', 99) \<in> set ASSET_IDS
   \<and> map_sum id (\<lambda>s. get_asset_id (\<lambda>t. t) s False) (get_symbol_from_asset_id 99) = Inr 99
   \<and> get_symbol_from_asset_id (get_asset_id (\<lambda>t. t) ''ENA'' False) = Inr ''ENA''
   \<and> (''HYPE/USDC'', 1) \<in> set spot_indices
   \<and> map_sum id (\<lambda>s. get_asset_id (\<lambda>t. t) s True)
         (get_symbol_from_asset_id (SPOT_ASSET_OFFSET + 1)) = Inr (SPOT_ASSET_OFFSET + 1)
   \<and> get_symbol_from_asset_id (get_asset_id (\<lambda>t. t) ''HYPE/USDC'' True) = Inr ''HYPE/USDC''
   \<and> (1, ''HYPE/USDC'') \<in> set spot_symbols"
proof -
  have m: "(''ENA'', 99) \<in> set ASSET_IDS" by (simp add: ASSET_IDS_eq)
  have n: "(''HYPE/USDC'', 1) \<in> set spot_indices" by (simp add: spot_indices_eq)
  have k: "(1, ''HYPE/USDC'') \<in> set spot_symbols" by (simp add: spot_symbols_eq)
  from asset_id_symbol_roundtrip [of "\<lambda>t. t"] m n k show ?thesis by fast
qed

text \<open>
  An id that is no value of the directory, and whose digits can be printed, gets a
  symbol that is no key of it: \<^verbatim>\<open>UNKNOWN_\<close> followed by the number.
\<close>

lemma unknown_asset_id_sentinel:
  assumes "asset_id \<notin> snd ` set ASSET_IDS" and "asset_id < SPOT_ASSET_OFFSET"
    and "\<bar>asset_id\<bar> < 10 ^ int_max_str_digits"
  shows "get_symbol_from_asset_id asset_id = Inr (''UNKNOWN_'' @ str_int asset_id)"
    and "''UNKNOWN_'' @ str_int asset_id \<notin> fst ` set ASSET_IDS"
proof -
  show "get_symbol_from_asset_id asset_id = Inr (''UNKNOWN_'' @ str_int asset_id)"
    using assms by (simp add: get_symbol_from_asset_id_def find_by_value_None py_str_int_def)
  have "\<forall>(symbol, aid) \<in> set ASSET_IDS. take 8 symbol \<noteq> ''UNKNOWN_''"
    using ASSET_IDS_keys_not_sentinel unfolding list_all_iff by fast
  then show "''UNKNOWN_'' @ str_int asset_id \<notin> fst ` set ASSET_IDS"
    by force
qed

lemma directory_lookups:
  "map_of ASSET_IDS ''DOGECOIN'' = None \<and> map_of ASSET_IDS ''BTC'' = Some 0
   \<and> map_of spot_indices ''ETH/USDC'' = None \<and> map_of spot_indices ''PURR/USDC'' = Some 0"
  by code_simp

lemma upper_of_upper_case:
  "upper unicode_upper ''DOGECOIN'' = ''DOGECOIN''" "upper unicode_upper ''BTC'' = ''BTC''"
  by (simp_all add: upper_def is_ascii_def upper_char_def)

text \<open>
  Claim C6. \<^verbatim>\<open>get_asset_id\<close> answers a symbol that is not in the directory with
  0 in the perpetual namespace and with 10000 in the spot namespace: these are the
  ids of \<^verbatim>\<open>BTC\<close> and of \<^verbatim>\<open>PURR/USDC\<close>, so the answer for an unknown symbol
  cannot be told from the id of a known asset.
\<close>

theorem unknown_symbol_collides_with_known_id:
  "map_of ASSET_IDS (upper unicode_upper ''DOGECOIN'') = None
   \<and> map_of ASSET_IDS ''BTC'' = Some 0
   \<and> get_asset_id unicode_upper ''DOGECOIN'' False = 0
   \<and> get_asset_id unicode_upper ''BTC'' False = 0
   \<and> map_of spot_indices ''ETH/USDC'' = None
   \<and> map_of spot_indices ''PURR/USDC'' = Some 0
   \<and> get_asset_id unicode_upper ''ETH/USDC'' True = 10000
   \<and> get_asset_id unicode_upper ''PURR/USDC'' True = 10000"
  using directory_lookups
  by (simp add: get_asset_id_def dict_get_def upper_of_upper_case SPOT_ASSET_OFFSET_def)


section \<open>Properties of the permission controller\<close>

lemma py_mul_ints:
  "as_int a = Some x \<Longrightarrow> as_int b = Some y \<Longrightarrow> py_mul fo a b = Inr (PInt (x * y))"
  by (simp add: py_mul_def)

lemma py_mul_floats:
  assumes "as_int a = None \<or> as_int b = None"
    and "as_float fo a = Some (Inr f)" and "as_float fo b = Some (Inr g)"
  shows "py_mul fo a b = Inr (PFloat (fmul fo f g))"
  using assms
  by (cases a; cases b)
     (simp_all add: py_mul_def as_int_def as_float_def split: option.splits)

lemma fmt_cases:
  "fmt (PInt i) = (if \<bar>i\<bar> < 10 ^ int_max_str_digits then Inr (Val (PInt i)) else Inl ValueError)"
  "fmt (PFloat f) = Inr (Val (PFloat f))"
  "fmt (PBool b) = Inr (Val (PBool b))"
  "fmt (PStr s) = Inr (Val (PStr s))"
  "fmt PNone = Inr (Val PNone)"
  by (simp_all add: fmt_def py_str_int_def)

lemma fmt_small: "\<bar>i\<bar> < 1000000 \<Longrightarrow> fmt (PInt i) = Inr (Val (PInt i))"
  by (simp add: fmt_def py_str_int_small)

lemma check_permissions_reason: "reason (check_permissions self act perms) \<noteq> None"
  by (simp add: check_permissions_def split: option.splits)

lemma denied_not_allowed: "\<not> allowed (denied why level)"
  by (simp add: denied_def)

lemma check_risk_limits_exceeds:
  assumes "act = ''place_order'' \<or> act = ''modify_order''"
    and "py_mul fo (pget ps ''size'' (PInt 0)) (pget ps ''leverage'' (PInt 1)) = Inr v"
    and "py_gt v (max_total_exposure (global_risk_limits self)) ''float'' = Inr True"
  shows "check_risk_limits fo self wallet act ps =
     (case fmt v of
        Inl e \<Rightarrow> denied [Lit ''Risk check error: '', ExnVal e] ''medium''
      | Inr shown \<Rightarrow>
          denied [Lit ''Position size $'', shown, Lit '' exceeds limit $'',
                  FloatVal (max_total_exposure (global_risk_limits self))] ''high'')"
  using assms
  by (auto simp: check_risk_limits_def trading_action_checks_def Let_def split: sum.splits)

lemma check_risk_limits_order_allowed:
  assumes "act = ''place_order'' \<or> act = ''modify_order''"
    and "allowed (check_risk_limits fo self wallet act ps)"
  shows "\<exists>v. py_mul fo (pget ps ''size'' (PInt 0)) (pget ps ''leverage'' (PInt 1)) = Inr v
           \<and> py_gt v (max_total_exposure (global_risk_limits self)) ''float'' = Inr False"
proof (cases "py_mul fo (pget ps ''size'' (PInt 0)) (pget ps ''leverage'' (PInt 1))")
  case (Inl e)
  with assms show ?thesis
    by (auto simp: check_risk_limits_def trading_action_checks_def Let_def denied_def)
next
  case (Inr v)
  show ?thesis
  proof (cases "py_gt v (max_total_exposure (global_risk_limits self)) ''float''")
    case (Inl e)
    with assms Inr show ?thesis
      by (auto simp: check_risk_limits_def trading_action_checks_def Let_def denied_def)
  next
    case r: (Inr b)
    show ?thesis
    proof (cases b)
      case True
      with check_risk_limits_exceeds [OF assms(1) Inr, of self wallet] r assms(2)
      show ?thesis by (simp add: denied_def split: sum.splits)
    next
      case False
      with Inr r show ?thesis by simp
    qed
  qed
qed

lemma check_risk_limits_order_within:
  assumes "act = ''place_order'' \<or> act = ''modify_order''"
    and "py_mul fo (pget ps ''size'' (PInt 0)) (pget ps ''leverage'' (PInt 1)) = Inr v"
    and "py_gt v (max_total_exposure (global_risk_limits self)) ''float'' = Inr False"
  shows "check_risk_limits fo self wallet act ps =
     \<lparr>allowed = True, reason = Some [Lit ''Risk limits OK''],
      requires_ai_confirmation = None, res_risk_level = None, limits = None\<rparr>"
  using assms
  by (auto simp: check_risk_limits_def trading_action_checks_def
      withdrawal_transfer_checks_def Let_def)

lemma check_risk_limits_order_iff:
  assumes "act = ''place_order'' \<or> act = ''modify_order''"
  shows "allowed (check_risk_limits fo self wallet act ps) =
     (\<exists>v. py_mul fo (pget ps ''size'' (PInt 0)) (pget ps ''leverage'' (PInt 1)) = Inr v
         \<and> py_gt v (max_total_exposure (global_risk_limits self)) ''float'' = Inr False)"
  using check_risk_limits_order_allowed [OF assms, of fo self wallet ps]
    check_risk_limits_order_within [OF assms, of fo ps _ self wallet]
  by auto

lemma validate_action_allowed_risk:
  assumes "allowed (fst (validate_action fo self wallet act (Some ps) perms))"
  shows "allowed (check_risk_limits fo self wallet act ps)"
proof (rule ccontr)
  assume n: "\<not> allowed (check_risk_limits fo self wallet act ps)"
  have "\<not> allowed (fst (validate_action fo self wallet act (Some ps) perms))"
  proof (cases "allowed (check_permissions self act (case perms of Some l \<Rightarrow> l | None \<Rightarrow> []))")
    case False
    obtain why where
      "reason (check_permissions self act (case perms of Some l \<Rightarrow> l | None \<Rightarrow> [])) = Some why"
      using check_permissions_reason by blast
    with False show ?thesis
      by (simp add: validate_action_def validate_action_body_def Let_def denied_def)
  next
    case True
    with n show ?thesis
      by (simp add: validate_action_def validate_action_body_def Let_def denied_def
          split: option.splits prod.splits)
  qed
  with assms show False by simp
qed

lemma validate_action_order_allowed:
  assumes "act = ''place_order'' \<or> act = ''modify_order''"
    and "allowed (fst (validate_action fo self wallet act (Some ps) perms))"
  shows "\<exists>v. py_mul fo (pget ps ''size'' (PInt 0)) (pget ps ''leverage'' (PInt 1)) = Inr v
           \<and> py_gt v (max_total_exposure (global_risk_limits self)) ''float'' = Inr False"
  using check_risk_limits_order_allowed [OF assms(1) validate_action_allowed_risk [OF assms(2)]] .

lemma validate_action_exceeds:
  assumes "act = ''place_order'' \<or> act = ''modify_order''"
    and "py_mul fo (pget ps ''size'' (PInt 0)) (pget ps ''leverage'' (PInt 1)) = Inr v"
    and "py_gt v (max_total_exposure (global_risk_limits self)) ''float'' = Inr True"
  shows "\<not> allowed (fst (validate_action fo self wallet act (Some ps) perms))"
  using validate_action_order_allowed [OF assms(1), of fo self wallet ps perms] assms(2,3)
  by auto

lemma validate_action_exceeds_ints:
  assumes "act = ''place_order'' \<or> act = ''modify_order''"
    and "as_int (pget ps ''size'' (PInt 0)) = Some s"
    and "as_int (pget ps ''leverage'' (PInt 1)) = Some l"
    and "float_gt (FFinite (real_of_int (s * l))) (max_total_exposure (global_risk_limits self))"
  shows "\<not> allowed (fst (validate_action fo self wallet act (Some ps) perms))"
proof -
  have "py_gt (PInt (s * l)) (max_total_exposure (global_risk_limits self)) ''float'' = Inr True"
    using assms(4) by (simp add: py_gt_def num_value_def as_int_def)
  from validate_action_exceeds [OF assms(1) py_mul_ints [OF assms(2,3)] this]
  show ?thesis .
qed

lemma validate_action_exceeds_floats:
  assumes "act = ''place_order'' \<or> act = ''modify_order''"
    and "as_int (pget ps ''size'' (PInt 0)) = None
         \<or> as_int (pget ps ''leverage'' (PInt 1)) = None"
    and "as_float fo (pget ps ''size'' (PInt 0)) = Some (Inr f)"
    and "as_float fo (pget ps ''leverage'' (PInt 1)) = Some (Inr g)"
    and "float_gt (fmul fo f g) (max_total_exposure (global_risk_limits self))"
  shows "\<not> allowed (fst (validate_action fo self wallet act (Some ps) perms))"
proof -
  have "py_gt (PFloat (fmul fo f g)) (max_total_exposure (global_risk_limits self)) ''float''
      = Inr True"
    using assms(5) by (simp add: py_gt_def num_value_def)
  from validate_action_exceeds [OF assms(1) py_mul_floats [OF assms(2,3,4)] this]
  show ?thesis .
qed

lemma trading_permits_place_order:
  "check_permissions (PermissionController_init ul env today) ''place_order'' [''trading'']
     = \<lparr>allowed = True, reason = Some [Lit ''Action permitted''],
        requires_ai_confirmation = None, res_risk_level = None, limits = None\<rparr>"
  by (simp add: check_permissions_def PermissionController_init_def py_dict_def)

lemma exposure_scenario:
  assumes "env_get (MAX_TOTAL_EXPOSURE env) (FFinite 50000) = FFinite 50000"
  shows "fst (validate_action fo (PermissionController_init ul env today) wallet ''place_order''
            (Some [''size'' \<mapsto> PInt 20000, ''leverage'' \<mapsto> PInt 3]) (Some [''trading'']))
         = \<lparr>allowed = False,
            reason = Some [Lit ''Position size $'', Val (PInt 60000),
                           Lit '' exceeds limit $'', FloatVal (FFinite 50000)],
            requires_ai_confirmation = None, res_risk_level = Some ''high'', limits = None\<rparr>"
proof -
  let ?pc = "PermissionController_init ul env today"
  let ?ps = "[''size'' \<mapsto> PInt 20000, ''leverage'' \<mapsto> PInt 3]"
  have m: "max_total_exposure (global_risk_limits ?pc) = FFinite 50000"
    using assms by (simp add: PermissionController_init_def)
  have a: "py_mul fo (pget ?ps ''size'' (PInt 0)) (pget ?ps ''leverage'' (PInt 1))
      = Inr (PInt 60000)"
    by (simp add: pget_def py_mul_def as_int_def)
  have b: "py_gt (PInt 60000) (max_total_exposure (global_risk_limits ?pc)) ''float'' = Inr True"
    by (simp add: m py_gt_def num_value_def as_int_def)
  have "check_risk_limits fo ?pc wallet ''place_order'' ?ps =
     denied [Lit ''Position size $'', Val (PInt 60000), Lit '' exceeds limit $'',
             FloatVal (FFinite 50000)] ''high''"
    using check_risk_limits_exceeds [OF _ a b, of "''place_order''" wallet]
    by (simp add: fmt_small m)
  then show ?thesis
    by (simp add: validate_action_def validate_action_body_def Let_def
        trading_permits_place_order denied_def)
qed

text \<open>
  Claim C7. With the default limit of 50000 on the total exposure, a
  \<^verbatim>\<open>place_order\<close> for a wallet holding \<^verbatim>\<open>trading\<close> with size 20000 and
  leverage 3 is answered by exactly the denial with the reason
  \<^verbatim>\<open>Position size $60000 exceeds limit $50000.0\<close> and the risk level
  \<^verbatim>\<open>high\<close>. In general, for every controller, wallet, permission list and
  parameter dictionary, and whatever the machine arithmetic: an order (placed or
  modified) is never allowed when size times leverage, as Python computes the product,
  is above \<^verbatim>\<open>max_total_exposure\<close>. The product of two integers is exact and is
  compared with the limit by its value. When size or leverage is a float, the product
  is the rounded float product (an integer operand converted to a float first), and it
  is this float which is compared with the limit. Conversely, an order is allowed only
  if the product could be computed and is not above the limit, and the risk check of
  an order passes exactly in that case.
\<close>

theorem exposure_limit_denies_order:
  "(env_get (MAX_TOTAL_EXPOSURE env) (FFinite 50000) = FFinite 50000 \<longrightarrow>
      fst (validate_action fo (PermissionController_init ul env today) wallet ''place_order''
             (Some [''size'' \<mapsto> PInt 20000, ''leverage'' \<mapsto> PInt 3]) (Some [''trading'']))
        = \<lparr>allowed = False,
           reason = Some [Lit ''Position size $'', Val (PInt 60000),
                          Lit '' exceeds limit $'', FloatVal (FFinite 50000)],
           requires_ai_confirmation = None, res_risk_level = Some ''high'', limits = None\<rparr>)
   \<and> ((act = ''place_order'' \<or> act = ''modify_order'')
        \<and> py_mul fo (pget ps ''size'' (PInt 0)) (pget ps ''leverage'' (PInt 1)) = Inr v
        \<and> py_gt v (max_total_exposure (global_risk_limits self)) ''float'' = Inr True \<longrightarrow>
        \<not> allowed (fst (validate_action fo self wallet' act (Some ps) perms)))
   \<and> ((act = ''place_order'' \<or> act = ''modify_order'')
        \<and> as_int (pget ps ''size'' (PInt 0)) = Some s
        \<and> as_int (pget ps ''leverage'' (PInt 1)) = Some l
        \<and> float_gt (FFinite (real_of_int (s * l)))
             (max_total_exposure (global_risk_limits self)) \<longrightarrow>
        \<not> allowed (fst (validate_action fo self wallet' act (Some ps) perms)))
   \<and> ((act = ''place_order'' \<or> act = ''modify_order'')
        \<and> (as_int (pget ps ''size'' (PInt 0)) = None
             \<or> as_int (pget ps ''leverage'' (PInt 1)) = None)
        \<and> as_float fo (pget ps ''size'' (PInt 0)) = Some (Inr f)
        \<and> as_float fo (pget ps ''leverage'' (PInt 1)) = Some (Inr g)
        \<and> float_gt (fmul fo f g) (max_total_exposure (global_risk_limits self)) \<longrightarrow>
        \<not> allowed (fst (validate_action fo self wallet' act (Some ps) perms)))
   \<and> ((act = ''place_order'' \<or> act = ''modify_order'')
        \<and> allowed (fst (validate_action fo self wallet' act (Some ps) perms)) \<longrightarrow>
        (\<exists>w. py_mul fo (pget ps ''size'' (PInt 0)) (pget ps ''leverage'' (PInt 1)) = Inr w
            \<and> py_gt w (max_total_exposure (global_risk_limits self)) ''float'' = Inr False))
   \<and> (act = ''place_order'' \<or> act = ''modify_order'' \<longrightarrow>
        allowed (check_risk_limits fo self wallet' act ps) =
        (\<exists>w. py_mul fo (pget ps ''size'' (PInt 0)) (pget ps ''leverage'' (PInt 1)) = Inr w
            \<and> py_gt w (max_total_exposure (global_risk_limits self)) ''float'' = Inr False))"
proof (intro conjI impI)
  assume "env_get (MAX_TOTAL_EXPOSURE env) (FFinite 50000) = FFinite 50000"
  then show "fst (validate_action fo (PermissionController_init ul env today) wallet
             ''place_order''
             (Some [''size'' \<mapsto> PInt 20000, ''leverage'' \<mapsto> PInt 3]) (Some [''trading'']))
        = \<lparr>allowed = False,
           reason = Some [Lit ''Position size $'', Val (PInt 60000),
                          Lit '' exceeds limit $'', FloatVal (FFinite 50000)],
           requires_ai_confirmation = None, res_risk_level = Some ''high'', limits = None\<rparr>"
    by (rule exposure_scenario)
next
  assume "(act = ''place_order'' \<or> act = ''modify_order'')
        \<and> py_mul fo (pget ps ''size'' (PInt 0)) (pget ps ''leverage'' (PInt 1)) = Inr v
        \<and> py_gt v (max_total_exposure (global_risk_limits self)) ''float'' = Inr True"
  then show "\<not> allowed (fst (validate_action fo self wallet' act (Some ps) perms))"
    using validate_action_exceeds [of act fo ps v self wallet' perms] by simp
next
  assume "(act = ''place_order'' \<or> act = ''modify_order'')
        \<and> as_int (pget ps ''size'' (PInt 0)) = Some s
        \<and> as_int (pget ps ''leverage'' (PInt 1)) = Some l
        \<and> float_gt (FFinite (real_of_int (s * l)))
             (max_total_exposure (global_risk_limits self))"
  then show "\<not> allowed (fst (validate_action fo self wallet' act (Some ps) perms))"
    using validate_action_exceeds_ints [of act ps s l self fo wallet' perms] by simp
next
  assume "(act = ''place_order'' \<or> act = ''modify_order'')
        \<and> (as_int (pget ps ''size'' (PInt 0)) = None
             \<or> as_int (pget ps ''leverage'' (PInt 1)) = None)
        \<and> as_float fo (pget ps ''size'' (PInt 0)) = Some (Inr f)
        \<and> as_float fo (pget ps ''leverage'' (PInt 1)) = Some (Inr g)
        \<and> float_gt (fmul fo f g) (max_total_exposure (global_risk_limits self))"
  then show "\<not> allowed (fst (validate_action fo self wallet' act (Some ps) perms))"
    using validate_action_exceeds_floats [of act ps fo f g self wallet' perms] by simp
next
  assume "(act = ''place_order'' \<or> act = ''modify_order'')
        \<and> allowed (fst (validate_action fo self wallet' act (Some ps) perms))"
  then show "\<exists>w. py_mul fo (pget ps ''size'' (PInt 0)) (pget ps ''leverage'' (PInt 1)) = Inr w
            \<and> py_gt w (max_total_exposure (global_risk_limits self)) ''float'' = Inr False"
    using validate_action_order_allowed [of act fo self wallet' ps perms] by simp
next
  assume "act = ''place_order'' \<or> act = ''modify_order''"
  then show "allowed (check_risk_limits fo self wallet' act ps) =
        (\<exists>w. py_mul fo (pget ps ''size'' (PInt 0)) (pget ps ''leverage'' (PInt 1)) = Inr w
            \<and> py_gt w (max_total_exposure (global_risk_limits self)) ''float'' = Inr False)"
    by (rule check_risk_limits_order_iff)
qed

theorem exposure_limit_denies_order_witness:
  "env_get (MAX_TOTAL_EXPOSURE empty_environ) (FFinite 50000) = FFinite 50000
   \<and> fst (validate_action
            \<lparr>fmul = (\<lambda>a b. FFinite 60000), fadd = (\<lambda>a b. a),
             float_of_int = (\<lambda>i. Some (FFinite (real_of_int i))),
             str_repeat = (\<lambda>s n. Inr (concat (replicate (nat n) s)))\<rparr>
            (PermissionController_init (\<lambda>s. s) empty_environ ''2025-01-01'') ''0xabc''
            ''place_order'' (Some [''size'' \<mapsto> PInt 20000, ''leverage'' \<mapsto> PInt 3])
            (Some [''trading'']))
       = \<lparr>allowed = False,
          reason = Some [Lit ''Position size $'', Val (PInt 60000),
                         Lit '' exceeds limit $'', FloatVal (FFinite 50000)],
          requires_ai_confirmation = None, res_risk_level = Some ''high'', limits = None\<rparr>
   \<and> py_mul
         \<lparr>fmul = (\<lambda>a b. FFinite 60000), fadd = (\<lambda>a b. a),
          float_of_int = (\<lambda>i. Some (FFinite (real_of_int i))),
          str_repeat = (\<lambda>s n. Inr (concat (replicate (nat n) s)))\<rparr>
         (pget [''size'' \<mapsto> PInt 30000, ''leverage'' \<mapsto> PBool True] ''size'' (PInt 0))
         (pget [''size'' \<mapsto> PInt 30000, ''leverage'' \<mapsto> PBool True] ''leverage'' (PInt 1))
       = Inr (PInt 30000)
   \<and> py_gt (PInt 30000) (max_total_exposure (global_risk_limits
         ((PermissionController_init (\<lambda>s. s) empty_environ ''2025-01-01'')
            \<lparr>global_risk_limits := (global_risk_limits
                (PermissionController_init (\<lambda>s. s) empty_environ ''2025-01-01''))
                  \<lparr>max_total_exposure := FFinite 25000.5\<rparr>\<rparr>))) ''float'' = Inr True
   \<and> as_int (pget [''size'' \<mapsto> PInt 30000, ''leverage'' \<mapsto> PBool True] ''size'' (PInt 0))
       = Some 30000
   \<and> as_int (pget [''size'' \<mapsto> PInt 30000, ''leverage'' \<mapsto> PBool True] ''leverage'' (PInt 1))
       = Some 1
   \<and> float_gt (FFinite (real_of_int (30000 * 1))) (max_total_exposure (global_risk_limits
         ((PermissionController_init (\<lambda>s. s) empty_environ ''2025-01-01'')
            \<lparr>global_risk_limits := (global_risk_limits
                (PermissionController_init (\<lambda>s. s) empty_environ ''2025-01-01''))
                  \<lparr>max_total_exposure := FFinite 25000.5\<rparr>\<rparr>)))
   \<and> \<not> allowed (fst (validate_action
         \<lparr>fmul = (\<lambda>a b. FFinite 60000), fadd = (\<lambda>a b. a),
          float_of_int = (\<lambda>i. Some (FFinite (real_of_int i))),
          str_repeat = (\<lambda>s n. Inr (concat (replicate (nat n) s)))\<rparr>
         ((PermissionController_init (\<lambda>s. s) empty_environ ''2025-01-01'')
            \<lparr>global_risk_limits := (global_risk_limits
                (PermissionController_init (\<lambda>s. s) empty_environ ''2025-01-01''))
                  \<lparr>max_total_exposure := FFinite 25000.5\<rparr>\<rparr>)
         ''0xabc'' ''modify_order''
         (Some [''size'' \<mapsto> PInt 30000, ''leverage'' \<mapsto> PBool True]) (Some [''full_access''])))
   \<and> as_int (pget [''size'' \<mapsto> PFloat (FFinite 20000), ''leverage'' \<mapsto> PInt 3] ''size''
         (PInt 0)) = None
   \<and> as_float
         \<lparr>fmul = (\<lambda>a b. FFinite 60000), fadd = (\<lambda>a b. a),
          float_of_int = (\<lambda>i. Some (FFinite (real_of_int i))),
          str_repeat = (\<lambda>s n. Inr (concat (replicate (nat n) s)))\<rparr>
         (pget [''size'' \<mapsto> PFloat (FFinite 20000), ''leverage'' \<mapsto> PInt 3] ''size'' (PInt 0))
       = Some (Inr (FFinite 20000))
   \<and> as_float
         \<lparr>fmul = (\<lambda>a b. FFinite 60000), fadd = (\<lambda>a b. a),
          float_of_int = (\<lambda>i. Some (FFinite (real_of_int i))),
          str_repeat = (\<lambda>s n. Inr (concat (replicate (nat n) s)))\<rparr>
         (pget [''size'' \<mapsto> PFloat (FFinite 20000), ''leverage'' \<mapsto> PInt 3] ''leverage''
            (PInt 1))
       = Some (Inr (FFinite 3))
   \<and> float_gt (FFinite 60000) (max_total_exposure (global_risk_limits
         (PermissionController_init (\<lambda>s. s) empty_environ ''2025-01-01'')))
   \<and> \<not> allowed (fst (validate_action
         \<lparr>fmul = (\<lambda>a b. FFinite 60000), fadd = (\<lambda>a b. a),
          float_of_int = (\<lambda>i. Some (FFinite (real_of_int i))),
          str_repeat = (\<lambda>s n. Inr (concat (replicate (nat n) s)))\<rparr>
         (PermissionController_init (\<lambda>s. s) empty_environ ''2025-01-01'')
         ''0xabc'' ''place_order''
         (Some [''size'' \<mapsto> PFloat (FFinite 20000), ''leverage'' \<mapsto> PInt 3])
         (Some [''trading''])))
   \<and> allowed (fst (validate_action
         \<lparr>fmul = (\<lambda>a b. FFinite 60000), fadd = (\<lambda>a b. a),
          float_of_int = (\<lambda>i. Some (FFinite (real_of_int i))),
          str_repeat = (\<lambda>s n. Inr (concat (replicate (nat n) s)))\<rparr>
         (PermissionController_init (\<lambda>s. s) empty_environ ''2025-01-01'')
         ''0xabc'' ''place_order''
         (Some [''size'' \<mapsto> PInt 100, ''leverage'' \<mapsto> PInt 2]) (Some [''trading''])))
   \<and> py_mul
         \<lparr>fmul = (\<lambda>a b. FFinite 60000), fadd = (\<lambda>a b. a),
          float_of_int = (\<lambda>i. Some (FFinite (real_of_int i))),
          str_repeat = (\<lambda>s n. Inr (concat (replicate (nat n) s)))\<rparr>
         (pget [''size'' \<mapsto> PInt 100, ''leverage'' \<mapsto> PInt 2] ''size'' (PInt 0))
         (pget [''size'' \<mapsto> PInt 100, ''leverage'' \<mapsto> PInt 2] ''leverage'' (PInt 1))
       = Inr (PInt 200)
   \<and> py_gt (PInt 200) (max_total_exposure (global_risk_limits
         (PermissionController_init (\<lambda>s. s) empty_environ ''2025-01-01''))) ''float''
       = Inr False
   \<and> py_mul
         \<lparr>fmul = (\<lambda>a b. FFinite 50000), fadd = (\<lambda>a b. a),
          float_of_int = (\<lambda>i. Some (FFinite (real_of_int i))),
          str_repeat = (\<lambda>s n. Inr (concat (replicate (nat n) s)))\<rparr>
         (pget [''size'' \<mapsto> PFloat (FFinite 16666.666666666668), ''leverage'' \<mapsto> PInt 3]
            ''size'' (PInt 0))
         (pget [''size'' \<mapsto> PFloat (FFinite 16666.666666666668), ''leverage'' \<mapsto> PInt 3]
            ''leverage'' (PInt 1))
       = Inr (PFloat (FFinite 50000))
   \<and> py_gt (PFloat (FFinite 50000)) (max_total_exposure (global_risk_limits
         (PermissionController_init (\<lambda>s. s) empty_environ ''2025-01-01''))) ''float''
       = Inr False
   \<and> allowed (check_risk_limits
         \<lparr>fmul = (\<lambda>a b. FFinite 50000), fadd = (\<lambda>a b. a),
          float_of_int = (\<lambda>i. Some (FFinite (real_of_int i))),
          str_repeat = (\<lambda>s n. Inr (concat (replicate (nat n) s)))\<rparr>
         (PermissionController_init (\<lambda>s. s) empty_environ ''2025-01-01'') ''0xabc''
         ''place_order''
         [''size'' \<mapsto> PFloat (FFinite 16666.666666666668), ''leverage'' \<mapsto> PInt 3])"
proof -
  let ?fo = "\<lparr>fmul = (\<lambda>a b. FFinite 60000), fadd = (\<lambda>a b. a),
          float_of_int = (\<lambda>i. Some (FFinite (real_of_int i))),
          str_repeat = (\<lambda>s n. Inr (concat (replicate (nat n) s)))\<rparr>"
  let ?init = "PermissionController_init (\<lambda>s. s) empty_environ ''2025-01-01''"
  let ?low = "?init\<lparr>global_risk_limits := (global_risk_limits ?init)
                  \<lparr>max_total_exposure := FFinite 25000.5\<rparr>\<rparr>"
  let ?ps = "[''size'' \<mapsto> PInt 30000, ''leverage'' \<mapsto> PBool True]"
  let ?pf = "[''size'' \<mapsto> PFloat (FFinite 20000), ''leverage'' \<mapsto> PInt 3]"
  let ?pa = "[''size'' \<mapsto> PInt 100, ''leverage'' \<mapsto> PInt 2]"
  have e: "env_get (MAX_TOTAL_EXPOSURE empty_environ) (FFinite 50000) = FFinite 50000"
    by (simp add: env_get_def empty_environ_def)
  have m0: "max_total_exposure (global_risk_limits ?init) = FFinite 50000"
    by (simp add: PermissionController_init_def env_get_def empty_environ_def)
  have a: "as_int (pget ?ps ''size'' (PInt 0)) = Some 30000"
    and b: "as_int (pget ?ps ''leverage'' (PInt 1)) = Some 1"
    by (simp_all add: pget_def as_int_def)
  have p: "py_mul ?fo (pget ?ps ''size'' (PInt 0)) (pget ?ps ''leverage'' (PInt 1))
      = Inr (PInt 30000)"
    by (simp add: pget_def py_mul_def as_int_def)
  have q: "py_gt (PInt 30000) (max_total_exposure (global_risk_limits ?low)) ''float'' = Inr True"
    by (simp add: py_gt_def num_value_def as_int_def)
  have c: "float_gt (FFinite (real_of_int (30000 * 1)))
      (max_total_exposure (global_risk_limits ?low))"
    by simp
  have fa: "as_int (pget ?pf ''size'' (PInt 0)) = None"
    and fb: "as_float ?fo (pget ?pf ''size'' (PInt 0)) = Some (Inr (FFinite 20000))"
    and fc: "as_float ?fo (pget ?pf ''leverage'' (PInt 1)) = Some (Inr (FFinite 3))"
    by (simp_all add: pget_def as_int_def as_float_def)
  have fd: "float_gt (FFinite 60000) (max_total_exposure (global_risk_limits ?init))"
    by (simp add: m0)
  have fd': "float_gt (fmul ?fo (FFinite 20000) (FFinite 3))
      (max_total_exposure (global_risk_limits ?init))"
    using fd by simp
  have g: "py_mul ?fo (pget ?pa ''size'' (PInt 0)) (pget ?pa ''leverage'' (PInt 1))
      = Inr (PInt 200)"
    by (simp add: pget_def py_mul_def as_int_def)
  have h: "py_gt (PInt 200) (max_total_exposure (global_risk_limits ?init)) ''float'' = Inr False"
    by (simp add: m0 py_gt_def num_value_def as_int_def)
  have lims: "get_action_limits ?init ''place_order'' [''trading''] \<noteq> Inl (KeyError ''trading'')
      \<and> (\<exists>x. get_action_limits ?init ''place_order'' [''trading''] = Inr x)"
    by (simp add: get_action_limits_def PermissionController_init_def py_dict_def)
  then obtain x where x: "get_action_limits ?init ''place_order'' [''trading''] = Inr x"
    by blast
  have risk: "check_risk_limits ?fo ?init ''0xabc'' ''place_order'' ?pa
      = \<lparr>allowed = True, reason = Some [Lit ''Risk limits OK''],
          requires_ai_confirmation = None, res_risk_level = None, limits = None\<rparr>"
    using g h
    by (simp add: check_risk_limits_def trading_action_checks_def
        withdrawal_transfer_checks_def Let_def)
  have conf: "requires_ai_confirmation_check ?fo ?init ''place_order'' ?pa = Inr False"
    using g
    by (simp add: requires_ai_confirmation_check_def Let_def py_gt_def num_value_def as_int_def)
  have lev: "get_action_risk_level ?fo ''place_order'' ?pa = Inr ''medium''"
    using g
    by (simp add: get_action_risk_level_def Let_def py_gt_def num_value_def as_int_def)
  have al: "allowed (fst (validate_action ?fo ?init ''0xabc'' ''place_order'' (Some ?pa)
      (Some [''trading''])))"
    by (simp add: validate_action_def validate_action_body_def Let_def
        trading_permits_place_order risk conf lev x)
  from exposure_limit_denies_order
         [where env = empty_environ and today = "''2025-01-01''" and wallet = "''0xabc''"
            and fo = ?fo and ul = "\<lambda>s. s"
            and act = "''modify_order''" and ps = ?ps and s = 30000 and l = 1
            and v = "PInt 30000"
            and self = ?low and wallet' = "''0xabc''" and perms = "Some [''full_access'']"]
       e a b c p q
  have one: "fst (validate_action ?fo ?init ''0xabc'' ''place_order''
            (Some [''size'' \<mapsto> PInt 20000, ''leverage'' \<mapsto> PInt 3]) (Some [''trading'']))
       = \<lparr>allowed = False,
          reason = Some [Lit ''Position size $'', Val (PInt 60000),
                         Lit '' exceeds limit $'', FloatVal (FFinite 50000)],
          requires_ai_confirmation = None, res_risk_level = Some ''high'', limits = None\<rparr>"
    and two: "\<not> allowed (fst (validate_action ?fo ?low ''0xabc'' ''modify_order'' (Some ?ps)
          (Some [''full_access''])))"
    by simp_all
  from exposure_limit_denies_order
         [where fo = ?fo and act = "''place_order''" and ps = ?pf
            and f = "FFinite 20000" and g = "FFinite 3"
            and self = ?init and wallet' = "''0xabc''" and perms = "Some [''trading'']"]
       fa fb fc fd'
  have three: "\<not> allowed (fst (validate_action ?fo ?init ''0xabc'' ''place_order'' (Some ?pf)
          (Some [''trading''])))"
    by simp
  let ?fr = "\<lparr>fmul = (\<lambda>a b. FFinite 50000), fadd = (\<lambda>a b. a),
          float_of_int = (\<lambda>i. Some (FFinite (real_of_int i))),
          str_repeat = (\<lambda>s n. Inr (concat (replicate (nat n) s)))\<rparr>"
  let ?pr = "[''size'' \<mapsto> PFloat (FFinite 16666.666666666668), ''leverage'' \<mapsto> PInt 3]"
  have ra: "py_mul ?fr (pget ?pr ''size'' (PInt 0)) (pget ?pr ''leverage'' (PInt 1))
      = Inr (PFloat (FFinite 50000))"
    by (simp add: pget_def py_mul_def as_int_def as_float_def)
  have rb: "py_gt (PFloat (FFinite 50000)) (max_total_exposure (global_risk_limits ?init))
      ''float'' = Inr False"
    by (simp add: m0 py_gt_def num_value_def)
  from exposure_limit_denies_order
         [where fo = ?fr and act = "''place_order''" and ps = ?pr
            and self = ?init and wallet' = "''0xabc''"]
       ra rb
  have four: "allowed (check_risk_limits ?fr ?init ''0xabc'' ''place_order'' ?pr)"
    by blast
  show ?thesis
    by (intro conjI) (fact e one p q a b c two fa fb fc fd three al g h ra rb four)+
qed

lemma withdraw_not_trading: "trading_action_checks fo self ''withdraw'' ps = Inr None"
  by (simp add: trading_action_checks_def)

lemma check_risk_limits_withdraw:
  "check_risk_limits fo self wallet ''withdraw'' ps =
     (case py_gt (pget ps ''amount'' (PInt 0)) (max_daily_loss (global_risk_limits self))
             ''float'' of
        Inl e \<Rightarrow> denied [Lit ''Risk check error: '', ExnVal e] ''medium''
      | Inr True \<Rightarrow>
          (case fmt (pget ps ''amount'' (PInt 0)) of
             Inl e \<Rightarrow> denied [Lit ''Risk check error: '', ExnVal e] ''medium''
           | Inr shown \<Rightarrow>
               denied [Lit ''Amount $'', shown, Lit '' exceeds daily limit $'',
                       FloatVal (max_daily_loss (global_risk_limits self))] ''high'')
      | Inr False \<Rightarrow>
          \<lparr>allowed = True, reason = Some [Lit ''Risk limits OK''],
           requires_ai_confirmation = None, res_risk_level = None, limits = None\<rparr>)"
  by (simp add: check_risk_limits_def withdraw_not_trading withdrawal_transfer_checks_def
      Let_def split: sum.splits bool.splits)

lemma withdraw_requires_confirmation:
  "requires_ai_confirmation_check fo self ''withdraw'' ps
     = Inr (require_ai_confirmation (global_risk_limits self))"
  by (simp add: requires_ai_confirmation_check_def)

lemma validate_denied_by_risk:
  assumes "allowed (check_permissions self act (case perms of Some l \<Rightarrow> l | None \<Rightarrow> []))"
    and "check_risk_limits fo self wallet act ps = denied why level"
  shows "fst (validate_action fo self wallet act (Some ps) perms) = denied why level"
  using assms
  by (simp add: validate_action_def validate_action_body_def Let_def denied_def)

lemma validate_withdraw_within_limit:
  assumes "allowed (check_permissions self ''withdraw''
                      (case perms of Some l \<Rightarrow> l | None \<Rightarrow> []))"
    and "py_gt (pget ps ''amount'' (PInt 0)) (max_daily_loss (global_risk_limits self))
           ''float'' = Inr False"
  shows "require_ai_confirmation (global_risk_limits self) \<Longrightarrow>
         fst (validate_action fo self wallet ''withdraw'' (Some ps) perms)
           = \<lparr>allowed = True, reason = Some [Lit ''Action requires AI confirmation''],
              requires_ai_confirmation = Some True, res_risk_level = Some ''high'',
              limits = None\<rparr>"
    and "\<not> require_ai_confirmation (global_risk_limits self) \<Longrightarrow>
         requires_ai_confirmation (fst (validate_action fo self wallet ''withdraw'' (Some ps)
           perms)) \<noteq> Some True"
  using assms
  by (simp_all add: validate_action_def validate_action_body_def Let_def
      check_risk_limits_withdraw withdraw_requires_confirmation denied_def
      split: sum.splits)

lemma validate_withdraw_over_limit:
  assumes "allowed (check_permissions self ''withdraw''
                      (case perms of Some l \<Rightarrow> l | None \<Rightarrow> []))"
    and "py_gt (pget ps ''amount'' (PInt 0)) (max_daily_loss (global_risk_limits self))
           ''float'' = Inr True"
  shows "fmt (pget ps ''amount'' (PInt 0)) = Inr shown \<Longrightarrow>
         fst (validate_action fo self wallet ''withdraw'' (Some ps) perms)
           = denied [Lit ''Amount $'', shown, Lit '' exceeds daily limit $'',
                     FloatVal (max_daily_loss (global_risk_limits self))] ''high''"
    and "fmt (pget ps ''amount'' (PInt 0)) = Inl e \<Longrightarrow>
         fst (validate_action fo self wallet ''withdraw'' (Some ps) perms)
           = denied [Lit ''Risk check error: '', ExnVal e] ''medium''"
  using assms(2)
  by (simp_all add: validate_denied_by_risk [OF assms(1)] check_risk_limits_withdraw)

lemma validate_withdraw_not_a_number:
  assumes "allowed (check_permissions self ''withdraw''
                      (case perms of Some l \<Rightarrow> l | None \<Rightarrow> []))"
    and "py_gt (pget ps ''amount'' (PInt 0)) (max_daily_loss (global_risk_limits self))
           ''float'' = Inl e"
  shows "fst (validate_action fo self wallet ''withdraw'' (Some ps) perms)
           = denied [Lit ''Risk check error: '', ExnVal e] ''medium''"
  using assms(2)
  by (simp add: validate_denied_by_risk [OF assms(1)] check_risk_limits_withdraw)

lemma py_gt_cases:
  "py_gt (PInt i) x ty = Inr (float_gt (FFinite (real_of_int i)) x)"
  "py_gt (PBool b) x ty = Inr (float_gt (FFinite (if b then 1 else 0)) x)"
  "py_gt (PFloat f) x ty = Inr (float_gt f x)"
  "py_gt (PStr t) x ty = Inl (TypeError ''>'' ''str'' ty)"
  "py_gt PNone x ty = Inl (TypeError ''>'' ''NoneType'' ty)"
  by (simp_all add: py_gt_def num_value_def as_int_def type_name_def)

lemma full_access_permits_withdraw:
  "check_permissions (PermissionController_init ul env today) ''withdraw'' [''full_access'']
     = \<lparr>allowed = True, reason = Some [Lit ''Full access granted''],
        requires_ai_confirmation = None, res_risk_level = None, limits = None\<rparr>"
  by (simp add: check_permissions_def PermissionController_init_def py_dict_def)

lemma default_max_daily_loss:
  "max_daily_loss (global_risk_limits (PermissionController_init ul empty_environ today))
     = FFinite 1000"
  by (simp add: PermissionController_init_def empty_environ_def env_get_def)

lemma default_require_ai_confirmation:
  "require_ai_confirmation
     (global_risk_limits (PermissionController_init ul empty_environ today))"
  by (simp add: PermissionController_init_def empty_environ_def env_get_def
      lower_def is_ascii_def lower_char_def)

lemma ten_power_digits_large: "(1000 :: real) < real_of_int (10 ^ int_max_str_digits)"
proof -
  have "(10 :: real) ^ 3 < 10 ^ int_max_str_digits"
    by (rule power_strict_increasing) (simp_all add: int_max_str_digits_def)
  then show ?thesis by simp
qed

lemma fmt_too_long: "fmt (PInt (10 ^ int_max_str_digits)) = Inl ValueError"
  by (simp add: fmt_def py_str_int_def)

text \<open>
  Claim C2, as stated, fails: a withdrawal that the wallet's grants permit is denied
  when its amount is above \<^verbatim>\<open>max_daily_loss\<close> (2000 against the default 1000),
  and with \<^verbatim>\<open>REQUIRE_AI_CONFIRMATION\<close> set to \<^verbatim>\<open>False\<close> it is allowed with
  \<^verbatim>\<open>requires_ai_confirmation = False\<close>.
\<close>

theorem withdrawal_flag_counterexample:
  "allowed (check_permissions (PermissionController_init (\<lambda>s. s) empty_environ ''2025-01-01'')
              ''withdraw'' [''full_access''])
   \<and> fst (validate_action
            \<lparr>fmul = (\<lambda>a b. FNaN), fadd = (\<lambda>a b. FNaN), float_of_int = (\<lambda>i. None),
             str_repeat = (\<lambda>s n. Inl MemoryError)\<rparr>
            (PermissionController_init (\<lambda>s. s) empty_environ ''2025-01-01'')
            ''0xabc'' ''withdraw'' (Some [''amount'' \<mapsto> PInt 2000]) (Some [''full_access'']))
       = \<lparr>allowed = False,
          reason = Some [Lit ''Amount $'', Val (PInt 2000), Lit '' exceeds daily limit $'',
                         FloatVal (FFinite 1000)],
          requires_ai_confirmation = None, res_risk_level = Some ''high'', limits = None\<rparr>
   \<and> fst (validate_action
            \<lparr>fmul = (\<lambda>a b. FNaN), fadd = (\<lambda>a b. FNaN), float_of_int = (\<lambda>i. None),
             str_repeat = (\<lambda>s n. Inl MemoryError)\<rparr>
            (PermissionController_init (\<lambda>s. s)
               (empty_environ\<lparr>REQUIRE_AI_CONFIRMATION := Some ''False''\<rparr>) ''2025-01-01'')
            ''0xabc'' ''withdraw'' (Some [''amount'' \<mapsto> PInt 100]) (Some [''full_access'']))
       = \<lparr>allowed = True, reason = None, requires_ai_confirmation = Some False,
          res_risk_level = Some ''high'',
          limits = Some (Some \<lparr>lim_max_leverage = 50,
                               lim_max_position_size = NFloat (FFinite 10000),
                               lim_risk_level = ''high''\<rparr>)\<rparr>"
proof (intro conjI)
  let ?fo = "\<lparr>fmul = (\<lambda>a b. FNaN), fadd = (\<lambda>a b. FNaN), float_of_int = (\<lambda>i. None),
             str_repeat = (\<lambda>s n. Inl MemoryError)\<rparr>"
  let ?init = "PermissionController_init (\<lambda>s. s) empty_environ ''2025-01-01''"
  let ?ps = "[''amount'' \<mapsto> PInt 2000]"
  show p: "allowed (check_permissions ?init ''withdraw'' [''full_access''])"
    by (simp add: full_access_permits_withdraw)
  then have p': "allowed (check_permissions ?init ''withdraw''
      (case Some [''full_access''] of Some l \<Rightarrow> l | None \<Rightarrow> []))"
    by simp
  have m: "py_gt (pget ?ps ''amount'' (PInt 0)) (max_daily_loss (global_risk_limits ?init))
      ''float'' = Inr True"
    by (simp add: default_max_daily_loss pget_def py_gt_cases)
  have s: "fmt (pget ?ps ''amount'' (PInt 0)) = Inr (Val (PInt 2000))"
    by (simp add: pget_def fmt_small)
  show "fst (validate_action ?fo ?init ''0xabc'' ''withdraw'' (Some ?ps)
               (Some [''full_access'']))
       = \<lparr>allowed = False,
          reason = Some [Lit ''Amount $'', Val (PInt 2000), Lit '' exceeds daily limit $'',
                         FloatVal (FFinite 1000)],
          requires_ai_confirmation = None, res_risk_level = Some ''high'', limits = None\<rparr>"
    using validate_withdraw_over_limit(1) [OF p' m s, of ?fo "''0xabc''"]
    by (simp add: default_max_daily_loss denied_def)
next
  let ?fo = "\<lparr>fmul = (\<lambda>a b. FNaN), fadd = (\<lambda>a b. FNaN), float_of_int = (\<lambda>i. None),
             str_repeat = (\<lambda>s n. Inl MemoryError)\<rparr>"
  let ?off = "PermissionController_init (\<lambda>s. s)
               (empty_environ\<lparr>REQUIRE_AI_CONFIRMATION := Some ''False''\<rparr>) ''2025-01-01''"
  let ?ps = "[''amount'' \<mapsto> PInt 100]"
  have p: "allowed (check_permissions ?off ''withdraw'' [''full_access''])"
    by (simp add: full_access_permits_withdraw)
  have f: "\<not> require_ai_confirmation (global_risk_limits ?off)"
    by (simp add: PermissionController_init_def empty_environ_def env_get_def
        lower_def is_ascii_def lower_char_def)
  have d: "max_daily_loss (global_risk_limits ?off) = FFinite 1000"
    by (simp add: PermissionController_init_def empty_environ_def env_get_def)
  have r: "check_risk_limits ?fo ?off ''0xabc'' ''withdraw'' ?ps =
      \<lparr>allowed = True, reason = Some [Lit ''Risk limits OK''],
       requires_ai_confirmation = None, res_risk_level = None, limits = None\<rparr>"
    by (simp add: check_risk_limits_withdraw d pget_def py_gt_cases)
  have l: "get_action_limits ?off ''withdraw'' [''full_access''] =
      Inr (Some \<lparr>lim_max_leverage = 50, lim_max_position_size = NFloat (FFinite 10000),
                  lim_risk_level = ''high''\<rparr>)"
    by (simp add: get_action_limits_def PermissionController_init_def py_dict_def
        empty_environ_def env_get_def)
  have g: "get_action_risk_level ?fo ''withdraw'' ?ps = Inr ''high''"
    by (simp add: get_action_risk_level_def)
  show "fst (validate_action ?fo ?off ''0xabc'' ''withdraw'' (Some ?ps) (Some [''full_access'']))
       = \<lparr>allowed = True, reason = None, requires_ai_confirmation = Some False,
          res_risk_level = Some ''high'',
          limits = Some (Some \<lparr>lim_max_leverage = 50,
                               lim_max_position_size = NFloat (FFinite 10000),
                               lim_risk_level = ''high''\<rparr>)\<rparr>"
    by (simp add: validate_action_def validate_action_body_def Let_def p f r l g
        withdraw_requires_confirmation)
qed

text \<open>
  Claim C2, amended. For a withdrawal that the wallet's grants permit, with any value
  as its amount (an absent amount is the integer 0) and whatever the machine
  arithmetic, the result is decided by the comparison \<^verbatim>\<open>amount > max_daily_loss\<close>,
  which compares an integer, a boolean or a float with the limit by its value (a float
  that is not a number is not above the limit) and raises for any other value:
  \<^item> the amount is not above the limit and the controller's
    \<^verbatim>\<open>require_ai_confirmation\<close> setting is on: the result is \<^verbatim>\<open>allowed = True\<close>
    with \<^verbatim>\<open>requires_ai_confirmation = True\<close>, the same for every such amount;
  \<^item> the amount is not above the limit and the setting is off: the result does not
    have \<^verbatim>\<open>requires_ai_confirmation = True\<close>;
  \<^item> the amount is above the limit and can be printed: the withdrawal is denied with
    the reason \<^verbatim>\<open>Amount $... exceeds daily limit $...\<close> and the risk level
    \<^verbatim>\<open>high\<close>;
  \<^item> the amount is above the limit and cannot be printed (an integer of more than
    4300 digits, for which the conversion to text raises \<^verbatim>\<open>ValueError\<close>): the
    withdrawal is denied with the reason \<^verbatim>\<open>Risk check error: ...\<close> and the risk
    level \<^verbatim>\<open>medium\<close>;
  \<^item> the amount is no number: the withdrawal is denied with the reason
    \<^verbatim>\<open>Risk check error: ...\<close> and the risk level \<^verbatim>\<open>medium\<close>.
\<close>

theorem withdrawal_confirmation_flag:
  assumes "allowed (check_permissions self ''withdraw''
                      (case perms of Some l \<Rightarrow> l | None \<Rightarrow> []))"
  shows "(py_gt (pget ps ''amount'' (PInt 0)) (max_daily_loss (global_risk_limits self))
            ''float'' = Inr False
          \<and> require_ai_confirmation (global_risk_limits self) \<longrightarrow>
            fst (validate_action fo self wallet ''withdraw'' (Some ps) perms)
              = \<lparr>allowed = True, reason = Some [Lit ''Action requires AI confirmation''],
                 requires_ai_confirmation = Some True, res_risk_level = Some ''high'',
                 limits = None\<rparr>)
       \<and> (py_gt (pget ps ''amount'' (PInt 0)) (max_daily_loss (global_risk_limits self))
            ''float'' = Inr False
          \<and> \<not> require_ai_confirmation (global_risk_limits self) \<longrightarrow>
            requires_ai_confirmation
              (fst (validate_action fo self wallet ''withdraw'' (Some ps) perms)) \<noteq> Some True)
       \<and> (py_gt (pget ps ''amount'' (PInt 0)) (max_daily_loss (global_risk_limits self))
            ''float'' = Inr True
          \<and> fmt (pget ps ''amount'' (PInt 0)) = Inr shown \<longrightarrow>
            fst (validate_action fo self wallet ''withdraw'' (Some ps) perms)
              = \<lparr>allowed = False,
                 reason = Some [Lit ''Amount $'', shown, Lit '' exceeds daily limit $'',
                                FloatVal (max_daily_loss (global_risk_limits self))],
                 requires_ai_confirmation = None, res_risk_level = Some ''high'',
                 limits = None\<rparr>)
       \<and> (py_gt (pget ps ''amount'' (PInt 0)) (max_daily_loss (global_risk_limits self))
            ''float'' = Inr True
          \<and> fmt (pget ps ''amount'' (PInt 0)) = Inl e \<longrightarrow>
            fst (validate_action fo self wallet ''withdraw'' (Some ps) perms)
              = \<lparr>allowed = False, reason = Some [Lit ''Risk check error: '', ExnVal e],
                 requires_ai_confirmation = None, res_risk_level = Some ''medium'',
                 limits = None\<rparr>)
       \<and> (py_gt (pget ps ''amount'' (PInt 0)) (max_daily_loss (global_risk_limits self))
            ''float'' = Inl e' \<longrightarrow>
            fst (validate_action fo self wallet ''withdraw'' (Some ps) perms)
              = \<lparr>allowed = False, reason = Some [Lit ''Risk check error: '', ExnVal e'],
                 requires_ai_confirmation = None, res_risk_level = Some ''medium'',
                 limits = None\<rparr>)
       \<and> py_gt (PInt i) x ''float'' = Inr (float_gt (FFinite (real_of_int i)) x)
       \<and> py_gt (PBool b) x ''float'' = Inr (float_gt (FFinite (if b then 1 else 0)) x)
       \<and> py_gt (PFloat y) x ''float'' = Inr (float_gt y x)
       \<and> py_gt (PStr t) x ''float'' = Inl (TypeError ''>'' ''str'' ''float'')
       \<and> py_gt PNone x ''float'' = Inl (TypeError ''>'' ''NoneType'' ''float'')
       \<and> fmt (PInt i) =
           (if \<bar>i\<bar> < 10 ^ int_max_str_digits then Inr (Val (PInt i)) else Inl ValueError)
       \<and> fmt (PBool b) = Inr (Val (PBool b))
       \<and> fmt (PFloat y) = Inr (Val (PFloat y))"
proof -
  note w = validate_withdraw_within_limit [OF assms, of ps fo wallet]
  note o = validate_withdraw_over_limit [OF assms, of ps _ fo wallet]
  note n = validate_withdraw_not_a_number [OF assms, of ps _ fo wallet]
  show ?thesis
    using w o n by (simp add: py_gt_cases fmt_cases denied_def)
qed

theorem withdrawal_confirmation_flag_witness:
  "allowed (check_permissions (PermissionController_init (\<lambda>s. s) empty_environ ''2025-01-01'')
              ''withdraw'' (case Some [''full_access''] of Some l \<Rightarrow> l | None \<Rightarrow> []))
   \<and> py_gt (pget [''amount'' \<mapsto> PInt 500] ''amount'' (PInt 0))
        (max_daily_loss (global_risk_limits
           (PermissionController_init (\<lambda>s. s) empty_environ ''2025-01-01''))) ''float''
       = Inr False
   \<and> require_ai_confirmation
        (global_risk_limits (PermissionController_init (\<lambda>s. s) empty_environ ''2025-01-01''))
   \<and> fst (validate_action
            \<lparr>fmul = (\<lambda>a b. FNaN), fadd = (\<lambda>a b. FNaN), float_of_int = (\<lambda>i. None),
             str_repeat = (\<lambda>s n. Inl MemoryError)\<rparr>
            (PermissionController_init (\<lambda>s. s) empty_environ ''2025-01-01'')
            ''0xabc'' ''withdraw'' (Some [''amount'' \<mapsto> PInt 500]) (Some [''full_access'']))
       = \<lparr>allowed = True, reason = Some [Lit ''Action requires AI confirmation''],
          requires_ai_confirmation = Some True, res_risk_level = Some ''high'',
          limits = None\<rparr>
   \<and> allowed (check_permissions
        (PermissionController_init (\<lambda>s. s)
           (empty_environ\<lparr>REQUIRE_AI_CONFIRMATION := Some ''False''\<rparr>) ''2025-01-01'')
        ''withdraw'' (case Some [''full_access''] of Some l \<Rightarrow> l | None \<Rightarrow> []))
   \<and> py_gt (pget [''amount'' \<mapsto> PFloat (FFinite 12.5)] ''amount'' (PInt 0))
        (max_daily_loss (global_risk_limits
           (PermissionController_init (\<lambda>s. s)
              (empty_environ\<lparr>REQUIRE_AI_CONFIRMATION := Some ''False''\<rparr>) ''2025-01-01'')))
        ''float''
       = Inr False
   \<and> \<not> require_ai_confirmation
        (global_risk_limits (PermissionController_init (\<lambda>s. s)
           (empty_environ\<lparr>REQUIRE_AI_CONFIRMATION := Some ''False''\<rparr>) ''2025-01-01''))
   \<and> requires_ai_confirmation (fst (validate_action
            \<lparr>fmul = (\<lambda>a b. FNaN), fadd = (\<lambda>a b. FNaN), float_of_int = (\<lambda>i. None),
             str_repeat = (\<lambda>s n. Inl MemoryError)\<rparr>
            (PermissionController_init (\<lambda>s. s)
               (empty_environ\<lparr>REQUIRE_AI_CONFIRMATION := Some ''False''\<rparr>) ''2025-01-01'')
            ''0xabc'' ''withdraw'' (Some [''amount'' \<mapsto> PFloat (FFinite 12.5)])
            (Some [''full_access''])))
       \<noteq> Some True
   \<and> py_gt (pget [''amount'' \<mapsto> PFloat (FFinite 2000.5)] ''amount'' (PInt 0))
        (max_daily_loss (global_risk_limits
           (PermissionController_init (\<lambda>s. s) empty_environ ''2025-01-01''))) ''float''
       = Inr True
   \<and> fmt (pget [''amount'' \<mapsto> PFloat (FFinite 2000.5)] ''amount'' (PInt 0))
       = Inr (Val (PFloat (FFinite 2000.5)))
   \<and> fst (validate_action
            \<lparr>fmul = (\<lambda>a b. FNaN), fadd = (\<lambda>a b. FNaN), float_of_int = (\<lambda>i. None),
             str_repeat = (\<lambda>s n. Inl MemoryError)\<rparr>
            (PermissionController_init (\<lambda>s. s) empty_environ ''2025-01-01'')
            ''0xabc'' ''withdraw'' (Some [''amount'' \<mapsto> PFloat (FFinite 2000.5)])
            (Some [''full_access'']))
       = \<lparr>allowed = False,
          reason = Some [Lit ''Amount $'', Val (PFloat (FFinite 2000.5)),
                         Lit '' exceeds daily limit $'', FloatVal (FFinite 1000)],
          requires_ai_confirmation = None, res_risk_level = Some ''high'', limits = None\<rparr>
   \<and> py_gt (pget [''amount'' \<mapsto> PInt (10 ^ int_max_str_digits)] ''amount'' (PInt 0))
        (max_daily_loss (global_risk_limits
           (PermissionController_init (\<lambda>s. s) empty_environ ''2025-01-01''))) ''float''
       = Inr True
   \<and> fmt (pget [''amount'' \<mapsto> PInt (10 ^ int_max_str_digits)] ''amount'' (PInt 0))
       = Inl ValueError
   \<and> fst (validate_action
            \<lparr>fmul = (\<lambda>a b. FNaN), fadd = (\<lambda>a b. FNaN), float_of_int = (\<lambda>i. None),
             str_repeat = (\<lambda>s n. Inl MemoryError)\<rparr>
            (PermissionController_init (\<lambda>s. s) empty_environ ''2025-01-01'')
            ''0xabc'' ''withdraw'' (Some [''amount'' \<mapsto> PInt (10 ^ int_max_str_digits)])
            (Some [''full_access'']))
       = \<lparr>allowed = False, reason = Some [Lit ''Risk check error: '', ExnVal ValueError],
          requires_ai_confirmation = None, res_risk_level = Some ''medium'', limits = None\<rparr>
   \<and> py_gt (pget [''amount'' \<mapsto> PStr ''all''] ''amount'' (PInt 0))
        (max_daily_loss (global_risk_limits
           (PermissionController_init (\<lambda>s. s) empty_environ ''2025-01-01''))) ''float''
       = Inl (TypeError ''>'' ''str'' ''float'')
   \<and> fst (validate_action
            \<lparr>fmul = (\<lambda>a b. FNaN), fadd = (\<lambda>a b. FNaN), float_of_int = (\<lambda>i. None),
             str_repeat = (\<lambda>s n. Inl MemoryError)\<rparr>
            (PermissionController_init (\<lambda>s. s) empty_environ ''2025-01-01'')
            ''0xabc'' ''withdraw'' (Some [''amount'' \<mapsto> PStr ''all'']) (Some [''full_access'']))
       = \<lparr>allowed = False,
          reason = Some [Lit ''Risk check error: '',
                         ExnVal (TypeError ''>'' ''str'' ''float'')],
          requires_ai_confirmation = None, res_risk_level = Some ''medium'', limits = None\<rparr>"
proof -
  let ?fo = "\<lparr>fmul = (\<lambda>a b. FNaN), fadd = (\<lambda>a b. FNaN), float_of_int = (\<lambda>i. None),
             str_repeat = (\<lambda>s n. Inl MemoryError)\<rparr>"
  let ?init = "PermissionController_init (\<lambda>s. s) empty_environ ''2025-01-01''"
  let ?off = "PermissionController_init (\<lambda>s. s)
               (empty_environ\<lparr>REQUIRE_AI_CONFIRMATION := Some ''False''\<rparr>) ''2025-01-01''"
  let ?perms = "Some [''full_access'']"
  have p: "allowed (check_permissions ?init ''withdraw''
      (case ?perms of Some l \<Rightarrow> l | None \<Rightarrow> []))"
    and p': "allowed (check_permissions ?off ''withdraw''
      (case ?perms of Some l \<Rightarrow> l | None \<Rightarrow> []))"
    by (simp_all add: full_access_permits_withdraw)
  have f: "require_ai_confirmation (global_risk_limits ?init)"
    by (rule default_require_ai_confirmation)
  have f': "\<not> require_ai_confirmation (global_risk_limits ?off)"
    by (simp add: PermissionController_init_def empty_environ_def env_get_def
        lower_def is_ascii_def lower_char_def)
  have m: "max_daily_loss (global_risk_limits ?init) = FFinite 1000"
    by (rule default_max_daily_loss)
  have m': "max_daily_loss (global_risk_limits ?off) = FFinite 1000"
    by (simp add: PermissionController_init_def empty_environ_def env_get_def)
  have a1: "py_gt (pget [''amount'' \<mapsto> PInt 500] ''amount'' (PInt 0))
      (max_daily_loss (global_risk_limits ?init)) ''float'' = Inr False"
    by (simp add: m pget_def py_gt_cases)
  have a2: "py_gt (pget [''amount'' \<mapsto> PFloat (FFinite 12.5)] ''amount'' (PInt 0))
      (max_daily_loss (global_risk_limits ?off)) ''float'' = Inr False"
    by (simp add: m' pget_def py_gt_cases)
  have a3: "py_gt (pget [''amount'' \<mapsto> PFloat (FFinite 2000.5)] ''amount'' (PInt 0))
      (max_daily_loss (global_risk_limits ?init)) ''float'' = Inr True"
    by (simp add: m pget_def py_gt_cases)
  have s3: "fmt (pget [''amount'' \<mapsto> PFloat (FFinite 2000.5)] ''amount'' (PInt 0))
      = Inr (Val (PFloat (FFinite 2000.5)))"
    by (simp add: pget_def fmt_cases)
  have a4: "py_gt (pget [''amount'' \<mapsto> PInt (10 ^ int_max_str_digits)] ''amount'' (PInt 0))
      (max_daily_loss (global_risk_limits ?init)) ''float'' = Inr True"
    using ten_power_digits_large by (simp add: m pget_def py_gt_cases)
  have s4: "fmt (pget [''amount'' \<mapsto> PInt (10 ^ int_max_str_digits)] ''amount'' (PInt 0))
      = Inl ValueError"
    by (simp add: pget_def fmt_too_long)
  have a5: "py_gt (pget [''amount'' \<mapsto> PStr ''all''] ''amount'' (PInt 0))
      (max_daily_loss (global_risk_limits ?init)) ''float''
      = Inl (TypeError ''>'' ''str'' ''float'')"
    by (simp add: pget_def py_gt_cases)
  have r1: "fst (validate_action ?fo ?init ''0xabc'' ''withdraw''
        (Some [''amount'' \<mapsto> PInt 500]) ?perms)
      = \<lparr>allowed = True, reason = Some [Lit ''Action requires AI confirmation''],
         requires_ai_confirmation = Some True, res_risk_level = Some ''high'',
         limits = None\<rparr>"
    using withdrawal_confirmation_flag [OF p, of "[''amount'' \<mapsto> PInt 500]" ?fo "''0xabc''"]
      a1 f by blast
  have r2: "requires_ai_confirmation (fst (validate_action ?fo ?off ''0xabc'' ''withdraw''
        (Some [''amount'' \<mapsto> PFloat (FFinite 12.5)]) ?perms)) \<noteq> Some True"
    using withdrawal_confirmation_flag
            [OF p', of "[''amount'' \<mapsto> PFloat (FFinite 12.5)]" ?fo "''0xabc''"]
      a2 f' by blast
  have r3: "fst (validate_action ?fo ?init ''0xabc'' ''withdraw''
        (Some [''amount'' \<mapsto> PFloat (FFinite 2000.5)]) ?perms)
      = \<lparr>allowed = False,
         reason = Some [Lit ''Amount $'', Val (PFloat (FFinite 2000.5)),
                        Lit '' exceeds daily limit $'', FloatVal (FFinite 1000)],
         requires_ai_confirmation = None, res_risk_level = Some ''high'', limits = None\<rparr>"
    using withdrawal_confirmation_flag
            [OF p, where ps = "[''amount'' \<mapsto> PFloat (FFinite 2000.5)]" and fo = ?fo
               and wallet = "''0xabc''" and shown = "Val (PFloat (FFinite 2000.5))"]
      a3 s3 m by simp
  have r4: "fst (validate_action ?fo ?init ''0xabc'' ''withdraw''
        (Some [''amount'' \<mapsto> PInt (10 ^ int_max_str_digits)]) ?perms)
      = \<lparr>allowed = False, reason = Some [Lit ''Risk check error: '', ExnVal ValueError],
         requires_ai_confirmation = None, res_risk_level = Some ''medium'', limits = None\<rparr>"
    using withdrawal_confirmation_flag
            [OF p, where ps = "[''amount'' \<mapsto> PInt (10 ^ int_max_str_digits)]" and fo = ?fo
               and wallet = "''0xabc''" and e = ValueError]
      a4 s4 by blast
  have r5: "fst (validate_action ?fo ?init ''0xabc'' ''withdraw''
        (Some [''amount'' \<mapsto> PStr ''all'']) ?perms)
      = \<lparr>allowed = False,
         reason = Some [Lit ''Risk check error: '',
                        ExnVal (TypeError ''>'' ''str'' ''float'')],
         requires_ai_confirmation = None, res_risk_level = Some ''medium'', limits = None\<rparr>"
    using withdrawal_confirmation_flag
            [OF p, where ps = "[''amount'' \<mapsto> PStr ''all'']" and fo = ?fo
               and wallet = "''0xabc''" and e' = "TypeError ''>'' ''str'' ''float''"]
      a5 by blast
  show ?thesis
    by (intro conjI) (fact p p' f f' a1 a2 a3 s3 a4 s4 a5 r1 r2 r3 r4 r5)+
qed

lemma validate_action_state: "snd (validate_action fo self wallet act ps perms) = self"
  by (simp add: validate_action_def split: sum.splits)

lemma update_daily_stats_log:
  "action_log (snd (update_daily_stats fo self today act ps res)) = action_log self"
  by (simp add: update_daily_stats_def Let_def split_def)

lemma log_action_appends:
  "fst (log_action fo self now today wallet act ps res agent)
     = fst (update_daily_stats fo
         (self\<lparr>action_log := action_log self @
            [\<lparr>timestamp = now, wallet_address = wallet, agent_name = agent, action = act,
              params = ps, result = res,
              entry_risk_level = pget res ''risk_level'' (PStr ''unknown'')\<rparr>]\<rparr>)
         today act ps res)
   \<and> action_log (snd (log_action fo self now today wallet act ps res agent))
     = drop (if fst (log_action fo self now today wallet act ps res agent) = None
             then length (action_log self) + 1 - 1000 else 0)
         (action_log self @
            [\<lparr>timestamp = now, wallet_address = wallet, agent_name = agent, action = act,
              params = ps, result = res,
              entry_risk_level = pget res ''risk_level'' (PStr ''unknown'')\<rparr>])"
proof -
  let ?e = "\<lparr>timestamp = now, wallet_address = wallet, agent_name = agent, action = act,
          params = ps, result = res,
          entry_risk_level = pget res ''risk_level'' (PStr ''unknown'')\<rparr>"
  let ?s1 = "self\<lparr>action_log := action_log self @ [?e]\<rparr>"
  obtain e s2 where u: "update_daily_stats fo ?s1 today act ps res = (e, s2)"
    by (cases "update_daily_stats fo ?s1 today act ps res")
  have l: "action_log s2 = action_log self @ [?e]"
    using update_daily_stats_log [of fo ?s1 today act ps res] u by simp
  show ?thesis
    by (cases e) (simp_all add: log_action_def Let_def u l)
qed

lemma drop_snoc_last:
  "k \<le> length xs \<Longrightarrow> drop k (xs @ [x]) \<noteq> [] \<and> last (drop k (xs @ [x])) = x"
  by simp

lemma read_only_permits_get_balance:
  "check_permissions (PermissionController_init ul env today) ''get_balance'' [''read_only'']
     = \<lparr>allowed = True, reason = Some [Lit ''Action permitted''],
        requires_ai_confirmation = None, res_risk_level = None, limits = None\<rparr>"
  by (simp add: check_permissions_def PermissionController_init_def py_dict_def)

lemma read_only_forbids_withdraw:
  "\<not> allowed (check_permissions (PermissionController_init ul env today) ''withdraw''
                 [''read_only''])"
  by (simp add: check_permissions_def PermissionController_init_def py_dict_def)

text \<open>
  Claim C1, as stated, fails: on a fresh controller, whose action log is empty, a
  call of \<^verbatim>\<open>validate_action\<close> that allows the action and a call that denies it
  both leave the action log empty.
\<close>

theorem validate_action_logs_nothing_counterexample:
  "action_log (PermissionController_init (\<lambda>s. s) empty_environ ''2025-01-01'') = []
   \<and> allowed (fst (validate_action
        \<lparr>fmul = (\<lambda>a b. FNaN), fadd = (\<lambda>a b. FNaN), float_of_int = (\<lambda>i. None),
         str_repeat = (\<lambda>s n. Inl MemoryError)\<rparr>
        (PermissionController_init (\<lambda>s. s) empty_environ ''2025-01-01'')
        ''0xabc'' ''get_balance'' None (Some [''read_only''])))
   \<and> action_log (snd (validate_action
        \<lparr>fmul = (\<lambda>a b. FNaN), fadd = (\<lambda>a b. FNaN), float_of_int = (\<lambda>i. None),
         str_repeat = (\<lambda>s n. Inl MemoryError)\<rparr>
        (PermissionController_init (\<lambda>s. s) empty_environ ''2025-01-01'')
        ''0xabc'' ''get_balance'' None (Some [''read_only'']))) = []
   \<and> \<not> allowed (fst (validate_action
        \<lparr>fmul = (\<lambda>a b. FNaN), fadd = (\<lambda>a b. FNaN), float_of_int = (\<lambda>i. None),
         str_repeat = (\<lambda>s n. Inl MemoryError)\<rparr>
        (PermissionController_init (\<lambda>s. s) empty_environ ''2025-01-01'')
        ''0xabc'' ''withdraw'' None (Some [''read_only''])))
   \<and> action_log (snd (validate_action
        \<lparr>fmul = (\<lambda>a b. FNaN), fadd = (\<lambda>a b. FNaN), float_of_int = (\<lambda>i. None),
         str_repeat = (\<lambda>s n. Inl MemoryError)\<rparr>
        (PermissionController_init (\<lambda>s. s) empty_environ ''2025-01-01'')
        ''0xabc'' ''withdraw'' None (Some [''read_only'']))) = []"
proof -
  let ?fo = "\<lparr>fmul = (\<lambda>a b. FNaN), fadd = (\<lambda>a b. FNaN), float_of_int = (\<lambda>i. None),
         str_repeat = (\<lambda>s n. Inl MemoryError)\<rparr>"
  let ?init = "PermissionController_init (\<lambda>s. s) empty_environ ''2025-01-01''"
  have e: "action_log ?init = []"
    by (simp add: PermissionController_init_def)
  have r: "check_risk_limits ?fo ?init ''0xabc'' ''get_balance'' Map.empty =
      \<lparr>allowed = True, reason = Some [Lit ''Risk limits OK''],
       requires_ai_confirmation = None, res_risk_level = None, limits = None\<rparr>"
    by (simp add: check_risk_limits_def trading_action_checks_def withdrawal_transfer_checks_def)
  have c: "requires_ai_confirmation_check ?fo ?init ''get_balance'' Map.empty = Inr False"
    by (simp add: requires_ai_confirmation_check_def)
  have g: "get_action_risk_level ?fo ''get_balance'' Map.empty = Inr ''low''"
    by (simp add: get_action_risk_level_def)
  have l: "get_action_limits ?init ''get_balance'' [''read_only''] =
      Inr (Some \<lparr>lim_max_leverage = 1, lim_max_position_size = NInt 0,
                  lim_risk_level = ''low''\<rparr>)"
    by (simp add: get_action_limits_def PermissionController_init_def py_dict_def)
  have a: "allowed (fst (validate_action ?fo ?init ''0xabc'' ''get_balance'' None
                           (Some [''read_only''])))"
    by (simp add: validate_action_def validate_action_body_def Let_def
        read_only_permits_get_balance r c g l)
  obtain why where w: "reason (check_permissions ?init ''withdraw'' [''read_only'']) = Some why"
    using check_permissions_reason by blast
  have d: "\<not> allowed (fst (validate_action ?fo ?init ''0xabc'' ''withdraw'' None
                             (Some [''read_only''])))"
    by (simp add: validate_action_def validate_action_body_def Let_def
        read_only_forbids_withdraw w denied_def)
  from e a d show ?thesis by (simp add: validate_action_state)
qed

text \<open>
  Claim C1, amended. For every wallet address, action, parameter map and permission
  list, \<^verbatim>\<open>validate_action\<close> leaves the controller, and so its action log,
  unchanged, whether the result is allowed or denied. An entry holding the
  timestamp, the parameters and the result is appended by a call of
  \<^verbatim>\<open>log_action\<close>, which the caller makes: the action log after that call is the
  log before it followed by the new entry, no entry changed or reordered and none
  removed but the oldest ones, which are dropped to keep the last 1000 when the call
  returns normally; when the update of the daily statistics raises, nothing is
  dropped. In both cases the new entry is the last one of the log.
  \<^verbatim>\<open>emergency_stop\<close> logs its own entry through \<^verbatim>\<open>log_action\<close>.
\<close>

theorem validate_action_keeps_log_log_action_appends:
  "snd (validate_action fo self wallet act ps_opt perms) = self
   \<and> action_log (snd (validate_action fo self wallet act ps_opt perms)) = action_log self
   \<and> action_log (snd (log_action fo self now today wallet act ps res agent))
       = drop (if fst (log_action fo self now today wallet act ps res agent) = None
               then length (action_log self) + 1 - 1000 else 0)
           (action_log self @
              [\<lparr>timestamp = now, wallet_address = wallet, agent_name = agent, action = act,
                params = ps, result = res,
                entry_risk_level = pget res ''risk_level'' (PStr ''unknown'')\<rparr>])
   \<and> fst (log_action fo self now today wallet act ps res agent)
       = fst (update_daily_stats fo
           (self\<lparr>action_log := action_log self @
              [\<lparr>timestamp = now, wallet_address = wallet, agent_name = agent, action = act,
                params = ps, result = res,
                entry_risk_level = pget res ''risk_level'' (PStr ''unknown'')\<rparr>]\<rparr>)
           today act ps res)
   \<and> action_log (snd (log_action fo self now today wallet act ps res agent)) \<noteq> []
   \<and> last (action_log (snd (log_action fo self now today wallet act ps res agent)))
       = \<lparr>timestamp = now, wallet_address = wallet, agent_name = agent, action = act,
          params = ps, result = res,
          entry_risk_level = pget res ''risk_level'' (PStr ''unknown'')\<rparr>
   \<and> snd (emergency_stop fo self now today wallet why)
       = snd (log_action fo self now today wallet ''emergency_stop''
                [''reason'' \<mapsto> PStr why]
                [''success'' \<mapsto> PBool True, ''action'' \<mapsto> PStr ''stopped'']
                (Some ''system''))"
proof -
  let ?e = "\<lparr>timestamp = now, wallet_address = wallet, agent_name = agent, action = act,
          params = ps, result = res,
          entry_risk_level = pget res ''risk_level'' (PStr ''unknown'')\<rparr>"
  let ?k = "if fst (log_action fo self now today wallet act ps res agent) = None
            then length (action_log self) + 1 - 1000 else 0"
  note a = log_action_appends [of fo self now today wallet act ps res agent]
  have k: "?k \<le> length (action_log self)"
    by simp
  have s: "snd (emergency_stop fo self now today wallet why)
       = snd (log_action fo self now today wallet ''emergency_stop''
                [''reason'' \<mapsto> PStr why]
                [''success'' \<mapsto> PBool True, ''action'' \<mapsto> PStr ''stopped'']
                (Some ''system''))"
    by (simp add: emergency_stop_def split: prod.splits option.splits)
  from a drop_snoc_last [OF k, of ?e] s show ?thesis
    by (simp add: validate_action_state)
qed

section \<open>Properties of the wallet registry\<close>

lemma length_keep_last: "length (keep_last n xs) \<le> n"
  by (simp add: keep_last_def)

lemma keep_last_short: "length xs \<le> n \<Longrightarrow> keep_last n xs = xs"
  by (simp add: keep_last_def)

lemma get_wallet_info_SomeD:
  "get_wallet_info self addr = Some w \<Longrightarrow> \<exists>ws. wallets self = Some ws \<and> ws addr = Some w"
  by (cases "wallets self") (simp_all add: get_wallet_info_def)

lemma log_wallet_activity_unknown:
  assumes "get_wallet_info self addr = None"
  shows "log_wallet_activity self t1 t2 t3 addr act success det = self"
proof (cases "wallets self")
  case None
  then show ?thesis by (simp add: log_wallet_activity_def)
next
  case (Some ws)
  with assms have "ws addr = None" by (simp add: get_wallet_info_def)
  with Some show ?thesis by (simp add: log_wallet_activity_def)
qed

lemma log_wallet_activity_no_count:
  assumes "get_wallet_info self addr = Some w" and "activity_count w = None"
  shows "log_wallet_activity self t1 t2 t3 addr act success det
     = self\<lparr>wallets := Some ((the (wallets self))(addr \<mapsto> w\<lparr>last_activity := Some t1\<rparr>))\<rparr>"
proof -
  from get_wallet_info_SomeD [OF assms(1)] obtain ws
    where ws: "wallets self = Some ws" "ws addr = Some w" by blast
  show ?thesis by (simp add: log_wallet_activity_def ws assms(2) Let_def)
qed

lemma log_wallet_activity_entry:
  assumes "get_wallet_info self addr = Some w" and "activity_count w = Some c"
  shows "get_wallet_info (log_wallet_activity self t1 t2 t3 addr act success det) addr
     = Some (if success then
          w\<lparr>last_activity := Some t1, activity_count := Some (c + 1),
            approved_actions := Some (keep_last 100
              ((case approved_actions w of None \<Rightarrow> [] | Some xs \<Rightarrow> xs) @
               [\<lparr>act_timestamp = t2, act_action = act, act_success = success,
                 act_details = (case det of Some d \<Rightarrow> d | None \<Rightarrow> Map.empty)\<rparr>]))\<rparr>
        else
          w\<lparr>last_activity := Some t1, activity_count := Some (c + 1),
            blocked_actions := Some (keep_last 50
              ((case blocked_actions w of None \<Rightarrow> [] | Some xs \<Rightarrow> xs) @
               [\<lparr>act_timestamp = t2, act_action = act, act_success = success,
                 act_details = (case det of Some d \<Rightarrow> d | None \<Rightarrow> Map.empty)\<rparr>]))\<rparr>)"
proof -
  from get_wallet_info_SomeD [OF assms(1)] obtain ws
    where ws: "wallets self = Some ws" "ws addr = Some w" by blast
  have k: "(if n < length xs then keep_last n xs else xs) = keep_last n xs"
    for n and xs :: "activity_entry list"
    by (simp add: keep_last_def)
  show ?thesis
    by (simp add: log_wallet_activity_def ws assms(2) Let_def get_wallet_info_def
        save_registry_def k del: length_append)
qed

lemma log_wallet_activity_other:
  assumes "a \<noteq> addr"
  shows "get_wallet_info (log_wallet_activity self t1 t2 t3 addr act success det) a
     = get_wallet_info self a"
proof (cases "get_wallet_info self addr")
  case None
  then show ?thesis by (simp add: log_wallet_activity_unknown)
next
  case (Some w)
  from get_wallet_info_SomeD [OF Some] obtain ws
    where ws: "wallets self = Some ws" "ws addr = Some w" by blast
  show ?thesis
  proof (cases "activity_count w")
    case None
    show ?thesis using assms
      by (simp add: log_wallet_activity_no_count [OF Some None] get_wallet_info_def ws)
  next
    case (Some c)
    show ?thesis using assms
      by (simp add: log_wallet_activity_def ws Some Let_def get_wallet_info_def
          save_registry_def)
  qed
qed

lemma log_wallet_activity_caps:
  assumes "\<forall>a w. get_wallet_info self a = Some w \<longrightarrow> within_caps w"
    and "get_wallet_info (log_wallet_activity self t1 t2 t3 addr act success det) a = Some w"
  shows "within_caps w"
proof (cases "a = addr")
  case False
  with assms show ?thesis by (simp add: log_wallet_activity_other)
next
  case True
  show ?thesis
  proof (cases "get_wallet_info self addr")
    case None
    with assms True show ?thesis by (simp add: log_wallet_activity_unknown)
  next
    case (Some w0)
    with assms(1) have c0: "within_caps w0" by blast
    show ?thesis
    proof (cases "activity_count w0")
      case None
      from get_wallet_info_SomeD [OF Some] obtain ws
        where ws: "wallets self = Some ws" "ws addr = Some w0" by blast
      from assms(2) True have "w = w0\<lparr>last_activity := Some t1\<rparr>"
        by (simp add: log_wallet_activity_no_count [OF Some None] get_wallet_info_def ws)
      with c0 show ?thesis by (simp add: within_caps_def)
    next
      case (Some c)
      from assms(2) True
      have "w = (if success then
          w0\<lparr>last_activity := Some t1, activity_count := Some (c + 1),
            approved_actions := Some (keep_last 100
              ((case approved_actions w0 of None \<Rightarrow> [] | Some xs \<Rightarrow> xs) @
               [\<lparr>act_timestamp = t2, act_action = act, act_success = success,
                 act_details = (case det of Some d \<Rightarrow> d | None \<Rightarrow> Map.empty)\<rparr>]))\<rparr>
        else
          w0\<lparr>last_activity := Some t1, activity_count := Some (c + 1),
            blocked_actions := Some (keep_last 50
              ((case blocked_actions w0 of None \<Rightarrow> [] | Some xs \<Rightarrow> xs) @
               [\<lparr>act_timestamp = t2, act_action = act, act_success = success,
                 act_details = (case det of Some d \<Rightarrow> d | None \<Rightarrow> Map.empty)\<rparr>]))\<rparr>)"
        by (simp add: log_wallet_activity_entry [OF \<open>get_wallet_info self addr = Some w0\<close> Some])
      with c0 show ?thesis
        by (cases success) (simp_all add: within_caps_def length_keep_last)
    qed
  qed
qed

lemma log_calls_caps:
  "\<forall>a w. get_wallet_info self a = Some w \<longrightarrow> within_caps w \<Longrightarrow>
   \<forall>a w. get_wallet_info (foldl log_call self calls) a = Some w \<longrightarrow> within_caps w"
proof (induction calls arbitrary: self)
  case Nil
  then show ?case by simp
next
  case (Cons c calls)
  have "\<forall>a w. get_wallet_info (log_call self c) a = Some w \<longrightarrow> within_caps w"
    unfolding log_call_def using log_wallet_activity_caps [OF Cons.prems] by blast
  from Cons.IH [OF this] show ?case by simp
qed


text \<open>
  Claim C9. Starting from a registry whose wallet entries hold at most 100 approved
  and 50 blocked actions (a registry without file, and every registered wallet, is
  such), after every sequence of \<^verbatim>\<open>log_wallet_activity\<close> calls every wallet
  entry still holds at most 100 approved and at most 50 blocked actions. Each call
  for a registered wallet re-establishes the bound of the list it appends to,
  whatever that list held before: after a successful action the approved list is the
  last 100 entries of the old list followed by the new entry, after a failed action
  the blocked list is the last 50 entries of the old list followed by the new entry,
  and the other list is untouched.
\<close>

theorem activity_logs_bounded:
  "((\<forall>a. case get_wallet_info self a of None \<Rightarrow> True | Some w \<Rightarrow> within_caps w) \<longrightarrow>
      (\<forall>a. case get_wallet_info (foldl log_call self calls) a of
              None \<Rightarrow> True | Some w \<Rightarrow> within_caps w))
   \<and> (get_wallet_info r addr = Some w0 \<and> activity_count w0 = Some c \<longrightarrow>
        (\<exists>w'. get_wallet_info (log_wallet_activity r t1 t2 t3 addr act success det) addr
                 = Some w'
           \<and> (if success then
                 approved_actions w' = Some (keep_last 100
                   ((case approved_actions w0 of None \<Rightarrow> [] | Some xs \<Rightarrow> xs) @
                    [\<lparr>act_timestamp = t2, act_action = act, act_success = success,
                      act_details = (case det of Some d \<Rightarrow> d | None \<Rightarrow> Map.empty)\<rparr>]))
                 \<and> blocked_actions w' = blocked_actions w0
               else
                 blocked_actions w' = Some (keep_last 50
                   ((case blocked_actions w0 of None \<Rightarrow> [] | Some xs \<Rightarrow> xs) @
                    [\<lparr>act_timestamp = t2, act_action = act, act_success = success,
                      act_details = (case det of Some d \<Rightarrow> d | None \<Rightarrow> Map.empty)\<rparr>]))
                 \<and> approved_actions w' = approved_actions w0)))
   \<and> length (keep_last 100 (entries :: activity_entry list)) \<le> 100
   \<and> length (keep_last 50 entries) \<le> 50
   \<and> keep_last 100 entries = drop (length entries - 100) entries
   \<and> keep_last 50 entries = drop (length entries - 50) entries"
proof (intro conjI impI)
  assume h: "\<forall>a. case get_wallet_info self a of None \<Rightarrow> True | Some w \<Rightarrow> within_caps w"
  then have "\<forall>a w. get_wallet_info self a = Some w \<longrightarrow> within_caps w"
    by (metis option.simps(5))
  from log_calls_caps [OF this, of calls]
  show "\<forall>a. case get_wallet_info (foldl log_call self calls) a of
              None \<Rightarrow> True | Some w \<Rightarrow> within_caps w"
    by (simp split: option.split)
next
  assume "get_wallet_info r addr = Some w0 \<and> activity_count w0 = Some c"
  then have a: "get_wallet_info r addr = Some w0" and b: "activity_count w0 = Some c"
    by simp_all
  show "\<exists>w'. get_wallet_info (log_wallet_activity r t1 t2 t3 addr act success det) addr
                 = Some w'
           \<and> (if success then
                 approved_actions w' = Some (keep_last 100
                   ((case approved_actions w0 of None \<Rightarrow> [] | Some xs \<Rightarrow> xs) @
                    [\<lparr>act_timestamp = t2, act_action = act, act_success = success,
                      act_details = (case det of Some d \<Rightarrow> d | None \<Rightarrow> Map.empty)\<rparr>]))
                 \<and> blocked_actions w' = blocked_actions w0
               else
                 blocked_actions w' = Some (keep_last 50
                   ((case blocked_actions w0 of None \<Rightarrow> [] | Some xs \<Rightarrow> xs) @
                    [\<lparr>act_timestamp = t2, act_action = act, act_success = success,
                      act_details = (case det of Some d \<Rightarrow> d | None \<Rightarrow> Map.empty)\<rparr>]))
                 \<and> approved_actions w' = approved_actions w0)"
    by (cases success) (simp_all add: log_wallet_activity_entry [OF a b])
qed (simp_all add: keep_last_def)

theorem activity_logs_bounded_witness:
  "(\<forall>a. case get_wallet_info
             (snd (register_wallet (load_registry_default ''t0'') ''t1'' ''t2'' ''0xabc''
                \<lparr>md_permissions = None, md_agent_name = None, md_description = None,
                 md_risk_level = None, md_max_daily_volume = None\<rparr>)) a of
          None \<Rightarrow> True | Some w \<Rightarrow> within_caps w)
   \<and> (\<forall>a. case get_wallet_info
             (foldl log_call
               (snd (register_wallet (load_registry_default ''t0'') ''t1'' ''t2'' ''0xabc''
                  \<lparr>md_permissions = None, md_agent_name = None, md_description = None,
                   md_risk_level = None, md_max_daily_volume = None\<rparr>))
               [\<lparr>c_t_activity = ''t3'', c_t_entry = ''t4'', c_t_saved = ''t5'',
                 c_wallet = ''0xabc'', c_action = ''place_order'', c_success = True,
                 c_details = None\<rparr>,
                \<lparr>c_t_activity = ''t6'', c_t_entry = ''t7'', c_t_saved = ''t8'',
                 c_wallet = ''0xabc'', c_action = ''withdraw'', c_success = False,
                 c_details = None\<rparr>]) a of
          None \<Rightarrow> True | Some w \<Rightarrow> within_caps w)
   \<and> get_wallet_info
        (snd (register_wallet (load_registry_default ''t0'') ''t1'' ''t2'' ''0xabc''
           \<lparr>md_permissions = None, md_agent_name = None, md_description = None,
            md_risk_level = None, md_max_daily_volume = None\<rparr>)) ''0xabc''
       = Some \<lparr>w_address = ''0xabc'', registered_at = ''t1'', is_active = True,
               permissions = [''read''], w_agent_name = [], w_description = [],
               w_risk_level = ''medium'', max_daily_volume = 10000, last_activity = None,
               activity_count = Some 0, approved_actions = Some [],
               blocked_actions = Some []\<rparr>
   \<and> (\<exists>w'. get_wallet_info
          (log_wallet_activity
            (snd (register_wallet (load_registry_default ''t0'') ''t1'' ''t2'' ''0xabc''
               \<lparr>md_permissions = None, md_agent_name = None, md_description = None,
                md_risk_level = None, md_max_daily_volume = None\<rparr>))
            ''t3'' ''t4'' ''t5'' ''0xabc'' ''place_order'' True None) ''0xabc'' = Some w'
        \<and> approved_actions w' =
            Some [\<lparr>act_timestamp = ''t4'', act_action = ''place_order'', act_success = True,
                   act_details = Map.empty\<rparr>]
        \<and> blocked_actions w' = Some [])"
proof -
  let ?R = "snd (register_wallet (load_registry_default ''t0'') ''t1'' ''t2'' ''0xabc''
                \<lparr>md_permissions = None, md_agent_name = None, md_description = None,
                 md_risk_level = None, md_max_daily_volume = None\<rparr>)"
  let ?W = "\<lparr>w_address = ''0xabc'', registered_at = ''t1'', is_active = True,
               permissions = [''read''], w_agent_name = [], w_description = [],
               w_risk_level = ''medium'', max_daily_volume = 10000, last_activity = None,
               activity_count = Some 0, approved_actions = Some [],
               blocked_actions = Some []\<rparr>"
  have g: "get_wallet_info ?R a = (if a = ''0xabc'' then Some ?W else None)" for a
    by (simp add: register_wallet_def load_registry_default_def save_registry_def
        get_wallet_info_def env_get_def Let_def)
  have h: "\<forall>a. case get_wallet_info ?R a of None \<Rightarrow> True | Some w \<Rightarrow> within_caps w"
    by (simp add: g within_caps_def)
  have w: "get_wallet_info ?R ''0xabc'' = Some ?W" by (simp add: g)
  have c: "activity_count ?W = Some 0" by simp
  from activity_logs_bounded
         [where self = ?R and r = ?R and addr = "''0xabc''" and ?w0.0 = ?W and c = 0
            and ?t1.0 = "''t3''" and ?t2.0 = "''t4''" and ?t3.0 = "''t5''"
            and act = "''place_order''" and success = True and det = None
            and calls = "[\<lparr>c_t_activity = ''t3'', c_t_entry = ''t4'', c_t_saved = ''t5'',
                 c_wallet = ''0xabc'', c_action = ''place_order'', c_success = True,
                 c_details = None\<rparr>,
                \<lparr>c_t_activity = ''t6'', c_t_entry = ''t7'', c_t_saved = ''t8'',
                 c_wallet = ''0xabc'', c_action = ''withdraw'', c_success = False,
                 c_details = None\<rparr>]"]
       h w c
  show ?thesis by (simp add: keep_last_def)
qed

section \<open>Properties of the streaming client\<close>

lemma connect_keeps_sent_subscriptions:
  "sent (connect net self) = sent self \<and> subscriptions (connect net self) = subscriptions self"
  "sent (handle_reconnect net self) = sent self
   \<and> subscriptions (handle_reconnect net self) = subscriptions self"
proof (induction net self and net self rule: connect_handle_reconnect.induct)
  case (1 net self)
  then show ?case by (simp add: emit_def)
next
  case (2 net self)
  then show ?case by simp
qed

lemma receive_loop_exit_keeps:
  "sent (receive_loop_exit net self) = sent self"
  "subscriptions (receive_loop_exit net self) = subscriptions self"
  by (simp_all add: receive_loop_exit_def connect_keeps_sent_subscriptions emit_def)

lemma reconnect_succeeds:
  assumes "connected self" and "reconnect_count self < max_reconnects self"
    and "reconnect_task self \<noteq> Some Running" and "net (attempts self)"
  shows "connected (receive_loop_exit net self)"
    and "websocket (receive_loop_exit net self) = Some (opened self + 1)"
    and "reconnect_count (receive_loop_exit net self) = 0"
  using assms by (simp_all add: receive_loop_exit_def emit_def)

text \<open>
  Claim C4, as stated, fails: a client connects and subscribes to the trades of
  \<^verbatim>\<open>BTC\<close> on its first socket; the connection drops and the first reconnect
  attempt succeeds. The client is connected on its second socket and still tracks the
  subscription, but no subscribe message went to the second socket: the only message
  ever sent is the caller's own on the first socket.
\<close>

theorem reconnect_sends_no_subscribe_counterexample:
  "fst (subscribe_trades (connect (\<lambda>k. True) (HyperliquidWebSocket_init 10)) True ''BTC'')
   \<and> subscribes_on
        (snd (subscribe_trades (connect (\<lambda>k. True) (HyperliquidWebSocket_init 10)) True ''BTC'')) 1
       = [[(''type'', ''trades''), (''coin'', ''BTC'')]]
   \<and> connected (receive_loop_exit (\<lambda>k. True)
        (snd (subscribe_trades (connect (\<lambda>k. True) (HyperliquidWebSocket_init 10)) True ''BTC'')))
   \<and> websocket (receive_loop_exit (\<lambda>k. True)
        (snd (subscribe_trades (connect (\<lambda>k. True) (HyperliquidWebSocket_init 10)) True ''BTC'')))
       = Some 2
   \<and> subscriptions (receive_loop_exit (\<lambda>k. True)
        (snd (subscribe_trades (connect (\<lambda>k. True) (HyperliquidWebSocket_init 10)) True ''BTC'')))
       = [(''trades_BTC'', [(''type'', ''trades''), (''coin'', ''BTC'')])]
   \<and> subscribes_on (receive_loop_exit (\<lambda>k. True)
        (snd (subscribe_trades (connect (\<lambda>k. True) (HyperliquidWebSocket_init 10)) True ''BTC''))) 2
       = []
   \<and> sent (receive_loop_exit (\<lambda>k. True)
        (snd (subscribe_trades (connect (\<lambda>k. True) (HyperliquidWebSocket_init 10)) True ''BTC'')))
       = [(1, \<lparr>msg_method = ''subscribe'',
                msg_subscription = [(''type'', ''trades''), (''coin'', ''BTC'')]\<rparr>)]"
  by (simp add: subscribe_trades_def subscribe_def sub_key_def dict_get_def py_dict_def
      HyperliquidWebSocket_init_def emit_def receive_loop_exit_def subscribes_on_def Let_def)

text \<open>
  Claim C4, amended. When the connection drops, the reconnect keeps the tracked
  subscription set as it was and sends no message, so none of the tracked
  subscriptions is sent again by the client: after a successful reconnect (the client
  was connected, is below its attempt limit, has no reconnect task running, and the
  next connection attempt succeeds) the client is connected on a new socket, and
  subscribing again on it is left to the caller.
\<close>

theorem reconnect_keeps_subscriptions_sends_nothing:
  "subscriptions (receive_loop_exit net self) = subscriptions self
   \<and> sent (receive_loop_exit net self) = sent self
   \<and> sent (connect net self) = sent self
   \<and> sent (handle_reconnect net self) = sent self
   \<and> (connected self \<and> reconnect_count self < max_reconnects self
        \<and> reconnect_task self \<noteq> Some Running \<and> net (attempts self) \<longrightarrow>
          connected (receive_loop_exit net self)
          \<and> websocket (receive_loop_exit net self) = Some (opened self + 1)
          \<and> reconnect_count (receive_loop_exit net self) = 0)"
  using receive_loop_exit_keeps [of net self] connect_keeps_sent_subscriptions [of net self]
    reconnect_succeeds [of self net]
  by simp

theorem reconnect_keeps_subscriptions_sends_nothing_witness:
  "connected (snd (subscribe_trades (connect (\<lambda>k. True) (HyperliquidWebSocket_init 10))
                     True ''BTC''))
   \<and> reconnect_count (snd (subscribe_trades (connect (\<lambda>k. True) (HyperliquidWebSocket_init 10))
                     True ''BTC''))
       < max_reconnects (snd (subscribe_trades (connect (\<lambda>k. True) (HyperliquidWebSocket_init 10))
                     True ''BTC''))
   \<and> reconnect_task (snd (subscribe_trades (connect (\<lambda>k. True) (HyperliquidWebSocket_init 10))
                     True ''BTC'')) = None
   \<and> connected (receive_loop_exit (\<lambda>k. True)
        (snd (subscribe_trades (connect (\<lambda>k. True) (HyperliquidWebSocket_init 10)) True ''BTC'')))
   \<and> websocket (receive_loop_exit (\<lambda>k. True)
        (snd (subscribe_trades (connect (\<lambda>k. True) (HyperliquidWebSocket_init 10)) True ''BTC'')))
       = Some 2
   \<and> sent (receive_loop_exit (\<lambda>k. True)
        (snd (subscribe_trades (connect (\<lambda>k. True) (HyperliquidWebSocket_init 10)) True ''BTC'')))
       = sent (snd (subscribe_trades (connect (\<lambda>k. True) (HyperliquidWebSocket_init 10))
                     True ''BTC''))"
proof -
  let ?s = "snd (subscribe_trades (connect (\<lambda>k. True) (HyperliquidWebSocket_init 10))
                     True ''BTC'')"
  have s: "?s = \<lparr>max_reconnects = 10, websocket = Some 1, connected = True,
      reconnect_count = 0,
      subscriptions = [(''trades_BTC'', [(''type'', ''trades''), (''coin'', ''BTC'')])],
      reconnect_task = None, opened = 1, attempts = 1,
      sent = [(1, \<lparr>msg_method = ''subscribe'',
                    msg_subscription = [(''type'', ''trades''), (''coin'', ''BTC'')]\<rparr>)],
      emitted = [''connected'']\<rparr>"
    by (simp add: subscribe_trades_def subscribe_def sub_key_def dict_get_def py_dict_def
        HyperliquidWebSocket_init_def emit_def Let_def)
  have a: "connected ?s" and b: "reconnect_count ?s < max_reconnects ?s"
    and c: "reconnect_task ?s = None" and d: "opened ?s = 1"
    unfolding s by simp_all
  from reconnect_keeps_subscriptions_sends_nothing [of "\<lambda>k. True" ?s] a b c d
  show ?thesis by simp
qed

end
